theory Spec2Isabelle
  imports Main "HOL-Library.Word" "HOL-Library.List_Lexorder"
begin

unbundle bit_operations_syntax

section \<open>The RocksDB table of tensors (rocksdb\_table\_op.cc)\<close>

text \<open>
  A shallow embedding of the class \<open>RocksDBTableOfTensors\<close> (for a key type \<open>K\<close> and
  a value type \<open>V\<close>) and of the helper templates in front of it. The platform is the one
  the kernels are built for: 64-bit pointers and \<open>size_t\<close>, little-endian byte order
  (a \<open>uint32_t\<close> written through a \<open>reinterpret_cast\<close> to \<open>const char *\<close> leaves its
  least significant byte first).
\<close>

subsection \<open>Bytes and native integers\<close>

type_synonym byte = "8 word"
type_synonym bytes = "byte list"

definition bytes_of_u32 :: "32 word \<Rightarrow> bytes" where
  "bytes_of_u32 w = [ucast w, ucast (drop_bit 8 w), ucast (drop_bit 16 w), ucast (drop_bit 24 w)]"

definition u32_of_bytes :: "bytes \<Rightarrow> 32 word" where
  "u32_of_bytes bs =
     (case bs of
        [b0, b1, b2, b3] \<Rightarrow>
          ucast b0 OR push_bit 8 (ucast b1) OR push_bit 16 (ucast b2) OR push_bit 24 (ucast b3)
      | _ \<Rightarrow> 0)"

definition bytes_of_ptr :: "64 word \<Rightarrow> bytes" where
  "bytes_of_ptr p =
     [ucast p, ucast (drop_bit 8 p), ucast (drop_bit 16 p), ucast (drop_bit 24 p),
      ucast (drop_bit 32 p), ucast (drop_bit 40 p), ucast (drop_bit 48 p), ucast (drop_bit 56 p)]"

subsection \<open>Constants\<close>

definition RDB_BATCH_MODE_MIN_QUERY_SIZE :: nat where
  "RDB_BATCH_MODE_MIN_QUERY_SIZE = 2"

definition RDB_BATCH_MODE_MAX_QUERY_SIZE :: nat where
  "RDB_BATCH_MODE_MAX_QUERY_SIZE = 128"

definition RDB_EXPORT_FILE_MAGIC :: "32 word" where
  "RDB_EXPORT_FILE_MAGIC =
     (push_bit 0 (0x54 :: 32 word) OR push_bit 8 0x46 OR push_bit 16 0x4B OR push_bit 24 0x56)"

definition RDB_EXPORT_FILE_VERSION :: "32 word" where
  "RDB_EXPORT_FILE_VERSION = 1"

subsection \<open>Status codes, exceptions, undefined behaviour\<close>

text \<open>
  A method either returns a \<open>Status\<close>, or leaves through a \<open>std::runtime_error\<close>
  (\<open>Thrown\<close>, with the message), or does something the language leaves undefined: an
  integer division by zero, a read past the end of a buffer, a call through a null column
  family handle (\<open>Undefined\<close>).
\<close>

datatype Code = OK | INVALID_ARGUMENT | PERMISSION_DENIED | NOT_FOUND
  | OUT_OF_RANGE | INTERNAL | UNKNOWN

datatype outcome = Returned Code | Thrown string | Undefined

subsection \<open>Element types and tensors\<close>

datatype DataType = DT_BOOL | DT_INT8 | DT_INT16 | DT_INT32 | DT_INT64
  | DT_HALF | DT_FLOAT | DT_DOUBLE | DT_STRING

text \<open>\<open>sizeof(T)\<close>; a \<open>tstring\<close> object is 24 bytes.\<close>

fun sizeof :: "DataType \<Rightarrow> nat" where
  "sizeof DT_BOOL = 1"
| "sizeof DT_INT8 = 1"
| "sizeof DT_INT16 = 2"
| "sizeof DT_INT32 = 4"
| "sizeof DT_INT64 = 8"
| "sizeof DT_HALF = 2"
| "sizeof DT_FLOAT = 4"
| "sizeof DT_DOUBLE = 8"
| "sizeof DT_STRING = 24"

text \<open>
  A tensor: its element type, \<open>dim_size(0)\<close>, the flat element buffer (\<open>NumElements()\<close>
  is its length) and the address \<open>data()\<close> of that buffer. An element is kept as its raw
  bytes: \<open>sizeof(T)\<close> of them for a numeric type, the characters for a \<open>tstring\<close>.
\<close>

record tensor =
  dtype :: DataType
  dim0 :: nat
  elems :: "bytes list"
  data :: "64 word"

definition NumElements :: "tensor \<Rightarrow> nat" where
  "NumElements x = length (elems x)"

subsection \<open>The store\<close>

text \<open>
  RocksDB itself is a library outside the repository. A column family is a finite map
  from key bytes to value bytes, kept as an association list with one pair per key; its
  iterator walks the pairs in the order of the default bytewise comparator, which is the
  lexicographic order on unsigned bytes. Store calls do not fail here for reasons of
  their own: a \<open>Get\<close> answers \<open>ok\<close> or \<open>NotFound\<close>, \<open>DropColumnFamily\<close> answers
  \<open>InvalidArgument\<close> for the default column family, the other statuses stay in the type
  because the code branches on them.
\<close>

type_synonym column_family = "(bytes \<times> bytes) list"

datatype rdb_status = Rdb_ok | Rdb_NotFound | Rdb_InvalidArgument | Rdb_IOError

fun cf_put :: "bytes \<Rightarrow> bytes \<Rightarrow> column_family \<Rightarrow> column_family" where
  "cf_put k v [] = [(k, v)]"
| "cf_put k v (p # ps) = (if fst p = k then (k, v) # ps else p # cf_put k v ps)"

fun cf_delete :: "bytes \<Rightarrow> column_family \<Rightarrow> column_family" where
  "cf_delete k [] = []"
| "cf_delete k (p # ps) = (if fst p = k then cf_delete k ps else p # cf_delete k ps)"

definition cf_get :: "column_family \<Rightarrow> bytes \<Rightarrow> rdb_status \<times> bytes" where
  "cf_get cf k = (case map_of cf k of None \<Rightarrow> (Rdb_NotFound, []) | Some v \<Rightarrow> (Rdb_ok, v))"

definition cf_iterate :: "column_family \<Rightarrow> (bytes \<times> bytes) list" where
  "cf_iterate cf = sort_key fst cf"

subsection \<open>The table object\<close>

text \<open>
  The fields the methods read and write. \<open>colHandles\<close> is the vector of open column
  family handles; each handle is shown as the column family it stands for, so that
  \<open>DropColumnFamily\<close> followed by \<open>erase\<close> removes an entry and \<open>CreateColumnFamily\<close>
  followed by \<open>push_back\<close> appends an empty one. A handle taken from the vector is its
  index (\<open>None\<close> is \<open>nullptr\<close>). \<open>colIndex\<close> is the position of this table's column
  family; the namespace exists when \<open>colIndex < colHandles.size()\<close>.
\<close>

record table =
  key_dtype :: DataType
  value_dtype :: DataType
  readOnly :: bool
  colHandles :: "column_family list"
  colIndex :: nat
  colHandleCache :: "nat option list"

definition namespace_present :: "table \<Rightarrow> bool" where
  "namespace_present t = (colIndex t < length (colHandles t))"

text \<open>The constructor and \<open>Clear\<close> leave \<open>colIndex\<close> at most one past the last handle.\<close>

definition table_ok :: "table \<Rightarrow> bool" where
  "table_ok t = (colIndex t \<le> length (colHandles t))"

definition GetOrCreateColumnHandle :: "table \<Rightarrow> table \<times> nat option" where
  "GetOrCreateColumnHandle t =
     (if colIndex t \<ge> length (colHandles t) then
        (if readOnly t then (t, None)
         else (t\<lparr>colHandles := colHandles t @ [[]]\<rparr>, Some (colIndex t)))
      else (t, Some (colIndex t)))"

text \<open>
  Every database has the column family \<open>default\<close>. \<open>ListColumnFamilies\<close> names it first, and
  families created later are appended, so it is the handle at index 0 of \<open>colHandles\<close> for
  as long as the table lives; a table whose \<open>embedding_name\<close> is \<open>default\<close> has \<open>colIndex\<close> 0.
  RocksDB refuses to drop it: \<open>DropColumnFamily\<close> answers \<open>InvalidArgument\<close> and changes
  nothing.
\<close>

definition db_DropColumnFamily :: "nat \<Rightarrow> rdb_status" where
  "db_DropColumnFamily h = (if h = 0 then Rdb_InvalidArgument else Rdb_ok)"

text \<open>
  \<open>Clear\<close> empties the handle cache first. The macro \<open>RDB_OK\<close> around \<open>DropColumnFamily\<close>
  throws \<open>std::runtime_error\<close> for a status that is not \<open>ok\<close>; nothing catches it, and
  the statements after it are not reached.
\<close>

definition Clear :: "table \<Rightarrow> table \<times> outcome" where
  "Clear t =
     (let t1 = t\<lparr>colHandleCache := []\<rparr> in
      if colIndex t1 < length (colHandles t1) then
        (if readOnly t1 then (t1, Returned PERMISSION_DENIED)
         else if \<not> (db_DropColumnFamily (colIndex t1) = Rdb_ok) then (t1, Thrown ''s.getState()'')
         else
           (let hs = take (colIndex t1) (colHandles t1) @ drop (Suc (colIndex t1)) (colHandles t1)
            in (t1\<lparr>colHandles := hs, colIndex := length hs\<rparr>, Returned OK)))
      else (t1, Returned OK))"

text \<open>Store calls on a handle: the column family at that index of \<open>colHandles\<close>.\<close>

definition db_Get :: "table \<Rightarrow> nat \<Rightarrow> bytes \<Rightarrow> rdb_status \<times> bytes" where
  "db_Get t h k = cf_get (colHandles t ! h) k"

definition db_Put :: "table \<Rightarrow> nat \<Rightarrow> bytes \<Rightarrow> bytes \<Rightarrow> table" where
  "db_Put t h k v = t\<lparr>colHandles := (colHandles t)[h := cf_put k v (colHandles t ! h)]\<rparr>"

definition db_Delete :: "table \<Rightarrow> nat \<Rightarrow> bytes \<Rightarrow> table" where
  "db_Delete t h k = t\<lparr>colHandles := (colHandles t)[h := cf_delete k (colHandles t ! h)]\<rparr>"

text \<open>
  A write batch is the list of its operations, oldest first; \<open>db->Write\<close> applies them in
  that order.
\<close>

datatype batch_op = BPut nat bytes bytes | BDelete nat bytes

fun db_Write :: "table \<Rightarrow> batch_op list \<Rightarrow> table" where
  "db_Write t [] = t"
| "db_Write t (BPut h k v # ops) = db_Write (db_Put t h k v) ops"
| "db_Write t (BDelete h k # ops) = db_Write (db_Delete t h k) ops"

text \<open>
  \<open>MultiGet(options, column_family, keys, &values)\<close> looks \<open>keys[i]\<close> up in
  \<open>column_family[i]\<close>; with fewer handles than keys it reads past the end of the handle
  vector (\<open>None\<close>).
\<close>

definition db_MultiGet :: "column_family list \<Rightarrow> bytes list \<Rightarrow> (rdb_status \<times> bytes) list option" where
  "db_MultiGet hs ks =
     (if length hs < length ks then None
      else Some (map (\<lambda>(cf, k). cf_get cf k) (zip hs ks)))"

subsection \<open>Slices and tensors: \<open>copyToTensor\<close> and \<open>assignSlice\<close>\<close>

text \<open>
  \<open>copyToTensor\<close> for a numeric type checks the length of the slice and copies it; the
  elements are the consecutive groups of \<open>sizeof(T)\<close> bytes.
\<close>

fun chunks :: "nat \<Rightarrow> nat \<Rightarrow> bytes \<Rightarrow> bytes list" where
  "chunks sz 0 bs = []"
| "chunks sz (Suc n) bs = take sz bs # chunks sz n (drop sz bs)"

text \<open>
  The \<open>tstring\<close> specialisation walks the slice: a \<open>uint32\<close> length, then that many
  characters, once per destination element; bytes left over are an error as well.
\<close>

fun copyToTensor_tstring :: "nat \<Rightarrow> bytes \<Rightarrow> string + bytes list" where
  "copyToTensor_tstring 0 src =
     (if src \<noteq> [] then
        Inl ''RocksDB returned more values than the destination tensor could absorb.''
      else Inr [])"
| "copyToTensor_tstring (Suc n) src =
     (if 4 > length src then Inl ''Something is very..very..very wrong. Buffer overflow immanent!''
      else
        (let len = unat (u32_of_bytes (take 4 src)); src1 = drop 4 src in
         if len > length src1 then
           Inl ''Something is very..very..very wrong. Buffer overflow immanent!''
         else
           (case copyToTensor_tstring n (drop len src1) of
              Inl msg \<Rightarrow> Inl msg
            | Inr dst \<Rightarrow> Inr (take len src1 # dst))))"

definition copyToTensor :: "DataType \<Rightarrow> bytes \<Rightarrow> nat \<Rightarrow> string + bytes list" where
  "copyToTensor T src numValues =
     (if T = DT_STRING then copyToTensor_tstring numValues src
      else if length src \<noteq> numValues * sizeof T then
        Inl ''Expected numValues * sizeof(T) bytes, but slice.size() bytes were returned by RocksDB.''
      else Inr (chunks (sizeof T) numValues src))"

text \<open>
  \<open>assignSlice(dst, src)\<close> with one source argument makes the slice point at the
  argument itself, \<open>sizeof(T)\<close> bytes long (the characters for a \<open>tstring\<close>). Called as
  \<open>assignSlice(kSlices[i], k[i])\<close> the argument is the key, an element of the key tensor.
  Called as \<open>assignSlice(kSlice, k)\<close> with the cursor \<open>const K *k\<close>, the template
  parameter is the pointer type and the slice is the eight bytes of the pointer.
\<close>

definition assignSlice_key :: "bytes \<Rightarrow> bytes" where
  "assignSlice_key src = src"

definition assignSlice_ptr :: "64 word \<Rightarrow> bytes" where
  "assignSlice_ptr k = bytes_of_ptr k"

text \<open>
  \<open>assignSlice(dst, src, numValues)\<close> makes the value slice: the raw bytes of
  \<open>numValues\<close> numeric elements, or for \<open>tstring\<close> each element behind its
  \<open>uint32\<close> length.
\<close>

fun assignSlice_tstring :: "bytes list \<Rightarrow> string + bytes" where
  "assignSlice_tstring [] = Inr []"
| "assignSlice_tstring (s # ss) =
     (if length s > 2 ^ 32 - 1 then Inl ''Value size is too large.''
      else
        (case assignSlice_tstring ss of
           Inl msg \<Rightarrow> Inl msg
         | Inr d \<Rightarrow> Inr (bytes_of_u32 (of_nat (length s)) @ s @ d)))"

definition assignSlice_values :: "DataType \<Rightarrow> bytes list \<Rightarrow> string + bytes" where
  "assignSlice_values T src =
     (if T = DT_STRING then assignSlice_tstring src else Inr (concat src))"

text \<open>Overwriting \<open>length xs\<close> elements of a buffer from position \<open>off\<close> on.\<close>

definition write_at :: "'a list \<Rightarrow> nat \<Rightarrow> 'a list \<Rightarrow> 'a list" where
  "write_at v off xs = take off v @ xs @ drop (off + length xs) v"

subsection \<open>\<open>Find\<close>\<close>

text \<open>
  \<open>std::copy_n(&d[vOffset % dSize], valuesPerDim0, &v[vOffset])\<close>. The remainder is
  undefined for an empty default tensor, and so is a copy that leaves the default buffer.
\<close>

definition copy_default :: "bytes list \<Rightarrow> nat \<Rightarrow> nat \<Rightarrow> bytes list \<Rightarrow> outcome + bytes list" where
  "copy_default d vOffset valuesPerDim0 v =
     (let dSize = length d in
      if dSize = 0 then Inl Undefined
      else
        (let off = vOffset mod dSize in
         if off + valuesPerDim0 > dSize then Inl Undefined
         else Inr (write_at v vOffset (take valuesPerDim0 (drop off d)))))"

text \<open>The body both loops share: what is done with one status and its value slice.\<close>

definition find_slot ::
  "DataType \<Rightarrow> nat \<Rightarrow> bytes list \<Rightarrow> nat \<Rightarrow> rdb_status \<times> bytes \<Rightarrow> bytes list \<Rightarrow> outcome + bytes list" where
  "find_slot V valuesPerDim0 d vOffset r v =
     (case fst r of
        Rdb_ok \<Rightarrow>
          (case copyToTensor V (snd r) valuesPerDim0 of
             Inl msg \<Rightarrow> Inl (Thrown msg)
           | Inr xs \<Rightarrow> Inr (write_at v vOffset xs))
      | Rdb_NotFound \<Rightarrow> copy_default d vOffset valuesPerDim0 v
      | Rdb_InvalidArgument \<Rightarrow> Inl (Thrown ''status.getState()'')
      | Rdb_IOError \<Rightarrow> Inl (Thrown ''status.getState()''))"

text \<open>
  The loop of the point path, \<open>n\<close> keys to go, \<open>k\<close> the cursor into the key buffer. The
  key slice is made from the cursor.
\<close>

fun find_point_loop ::
  "table \<Rightarrow> nat option \<Rightarrow> nat \<Rightarrow> bytes list \<Rightarrow> nat \<Rightarrow> 64 word \<Rightarrow> nat \<Rightarrow> bytes list
     \<Rightarrow> outcome \<times> bytes list" where
  "find_point_loop t colHandle valuesPerDim0 d 0 k vOffset v = (Returned OK, v)"
| "find_point_loop t colHandle valuesPerDim0 d (Suc n) k vOffset v =
     (let kSlice = assignSlice_ptr k;
          r = (case colHandle of
                 Some h \<Rightarrow> db_Get t h kSlice
               | None \<Rightarrow> (Rdb_NotFound, []))
      in case find_slot (value_dtype t) valuesPerDim0 d vOffset r v of
           Inl e \<Rightarrow> (e, v)
         | Inr v' \<Rightarrow>
             find_point_loop t colHandle valuesPerDim0 d n
               (k + of_nat (sizeof (key_dtype t))) (vOffset + valuesPerDim0) v')"

text \<open>The loop of the bulk path over the statuses and value slices of the multi-get.\<close>

fun find_bulk_loop ::
  "DataType \<Rightarrow> nat \<Rightarrow> bytes list \<Rightarrow> (rdb_status \<times> bytes) list \<Rightarrow> nat \<Rightarrow> bytes list
     \<Rightarrow> outcome \<times> bytes list" where
  "find_bulk_loop V valuesPerDim0 d [] vOffset v = (Returned OK, v)"
| "find_bulk_loop V valuesPerDim0 d (r # rs) vOffset v =
     (case find_slot V valuesPerDim0 d vOffset r v of
        Inl e \<Rightarrow> (e, v)
      | Inr v' \<Rightarrow> find_bulk_loop V valuesPerDim0 d rs (vOffset + valuesPerDim0) v')"

text \<open>
  The bulk path. The handle cache is topped up with the table's handle, but the
  multi-get is given \<open>colHandles\<close>, the vector of all open handles. Without a handle every
  status is \<open>NotFound\<close> and no value slice is read. The keys are the first \<open>numKeys\<close>
  elements of the key buffer; a buffer with fewer elements is read past its end.
\<close>

definition find_bulk ::
  "table \<Rightarrow> nat option \<Rightarrow> nat \<Rightarrow> bytes list \<Rightarrow> nat \<Rightarrow> bytes list \<Rightarrow> bytes list
     \<Rightarrow> table \<times> outcome \<times> bytes list" where
  "find_bulk t colHandle valuesPerDim0 d numKeys ks v =
     (let t1 = t\<lparr>colHandleCache :=
                  colHandleCache t @ replicate (numKeys - length (colHandleCache t)) colHandle\<rparr>
      in if length ks < numKeys then (t1, Undefined, v)
         else
           (let kSlices = map assignSlice_key (take numKeys ks) in
            case (case colHandle of
                    Some h \<Rightarrow> db_MultiGet (colHandles t1) kSlices
                  | None \<Rightarrow> Some (replicate numKeys (Rdb_NotFound, []))) of
              None \<Rightarrow> (t1, Undefined, v)
            | Some statuses \<Rightarrow>
                if length statuses \<noteq> numKeys then
                  (t1, Thrown ''Requested numKeys keys, but only got statuses.size() responses.'', v)
                else
                  (let (res, v') = find_bulk_loop (value_dtype t1) valuesPerDim0 d statuses 0 v
                   in (t1, res, v'))))"

text \<open>
  \<open>Find\<close>. The result is the table afterwards, the way the call ended and the value
  buffer (of no meaning after an exception or undefined behaviour). The two quotients,
  \<open>NumElements() / numValues\<close> and \<open>dSize % valuesPerDim0\<close>, are undefined for a zero
  divisor. The handle is asked for before the sizes are compared.
\<close>

definition Find :: "table \<Rightarrow> tensor \<Rightarrow> tensor \<Rightarrow> tensor \<Rightarrow> table \<times> outcome \<times> bytes list" where
  "Find t keys values default_value =
     (if \<not> (dtype keys = key_dtype t \<and> dtype values = value_dtype t
               \<and> dtype default_value = value_dtype t)
      then (t, Returned INVALID_ARGUMENT, elems values)
      else
        (let (t1, colHandle) = GetOrCreateColumnHandle t;
             numKeys = dim0 keys;
             numValues = dim0 values
         in if numKeys \<noteq> numValues then (t1, Returned INVALID_ARGUMENT, elems values)
            else if numValues = 0 then (t1, Undefined, elems values)
            else
              (let valuesPerDim0 = NumElements values div numValues;
                   d = elems default_value;
                   dSize = NumElements default_value
               in if valuesPerDim0 = 0 then (t1, Undefined, elems values)
                  else if dSize mod valuesPerDim0 \<noteq> 0 then
                    (t1, Returned INVALID_ARGUMENT, elems values)
                  else if numKeys < RDB_BATCH_MODE_MIN_QUERY_SIZE then
                    (let (res, v') =
                           find_point_loop t1 colHandle valuesPerDim0 d numKeys (data keys) 0
                             (elems values)
                     in (t1, res, v'))
                  else find_bulk t1 colHandle valuesPerDim0 d numKeys (elems keys) (elems values))))"

subsection \<open>\<open>Insert\<close> and \<open>Remove\<close>\<close>

text \<open>
  Both loops of \<open>Insert\<close> walk the key cursor \<open>k\<close> and the value cursor \<open>v\<close> (here the
  elements from the cursor on); both make the key slice from the cursor.
\<close>

fun insert_point_loop ::
  "table \<Rightarrow> nat \<Rightarrow> nat \<Rightarrow> nat \<Rightarrow> 64 word \<Rightarrow> bytes list \<Rightarrow> table \<times> outcome" where
  "insert_point_loop t h valuesPerDim0 0 k v = (t, Returned OK)"
| "insert_point_loop t h valuesPerDim0 (Suc n) k v =
     (case assignSlice_values (value_dtype t) (take valuesPerDim0 v) of
        Inl msg \<Rightarrow> (t, Thrown msg)
      | Inr vSlice \<Rightarrow>
          insert_point_loop (db_Put t h (assignSlice_ptr k) vSlice) h valuesPerDim0 n
            (k + of_nat (sizeof (key_dtype t))) (drop valuesPerDim0 v))"

fun insert_batch_loop ::
  "DataType \<Rightarrow> DataType \<Rightarrow> nat \<Rightarrow> nat \<Rightarrow> nat \<Rightarrow> 64 word \<Rightarrow> bytes list \<Rightarrow> batch_op list
     \<Rightarrow> string + batch_op list" where
  "insert_batch_loop K V h valuesPerDim0 0 k v batch = Inr batch"
| "insert_batch_loop K V h valuesPerDim0 (Suc n) k v batch =
     (case assignSlice_values V (take valuesPerDim0 v) of
        Inl msg \<Rightarrow> Inl msg
      | Inr vSlice \<Rightarrow>
          insert_batch_loop K V h valuesPerDim0 n (k + of_nat (sizeof K)) (drop valuesPerDim0 v)
            (batch @ [BPut h (assignSlice_ptr k) vSlice]))"

definition Insert :: "table \<Rightarrow> tensor \<Rightarrow> tensor \<Rightarrow> table \<times> outcome" where
  "Insert t keys values =
     (if \<not> (dtype keys = key_dtype t \<and> dtype values = value_dtype t)
      then (t, Returned INVALID_ARGUMENT)
      else
        (let (t1, colHandle) = GetOrCreateColumnHandle t in
         case colHandle of
           None \<Rightarrow> (t1, Returned PERMISSION_DENIED)
         | Some h \<Rightarrow>
             if readOnly t1 then (t1, Returned PERMISSION_DENIED)
             else
               (let numKeys = dim0 keys; numValues = dim0 values in
                if numKeys \<noteq> numValues then (t1, Returned INVALID_ARGUMENT)
                else if numValues = 0 then (t1, Undefined)
                else
                  (let valuesPerDim0 = NumElements values div numValues in
                   if numKeys < RDB_BATCH_MODE_MIN_QUERY_SIZE then
                     insert_point_loop t1 h valuesPerDim0 numKeys (data keys) (elems values)
                   else
                     (case insert_batch_loop (key_dtype t1) (value_dtype t1) h valuesPerDim0
                             numKeys (data keys) (elems values) [] of
                        Inl msg \<Rightarrow> (t1, Thrown msg)
                      | Inr batch \<Rightarrow> (db_Write t1 batch, Returned OK))))))"

fun remove_point_loop :: "table \<Rightarrow> nat \<Rightarrow> nat \<Rightarrow> 64 word \<Rightarrow> table" where
  "remove_point_loop t h 0 k = t"
| "remove_point_loop t h (Suc n) k =
     remove_point_loop (db_Delete t h (assignSlice_ptr k)) h n (k + of_nat (sizeof (key_dtype t)))"

fun remove_batch_loop :: "DataType \<Rightarrow> nat \<Rightarrow> nat \<Rightarrow> 64 word \<Rightarrow> batch_op list \<Rightarrow> batch_op list" where
  "remove_batch_loop K h 0 k batch = batch"
| "remove_batch_loop K h (Suc n) k batch =
     remove_batch_loop K h n (k + of_nat (sizeof K)) (batch @ [BDelete h (assignSlice_ptr k)])"

definition Remove :: "table \<Rightarrow> tensor \<Rightarrow> table \<times> outcome" where
  "Remove t keys =
     (if dtype keys \<noteq> key_dtype t then (t, Returned INVALID_ARGUMENT)
      else
        (let (t1, colHandle) = GetOrCreateColumnHandle t in
         case colHandle of
           None \<Rightarrow> (t1, Returned PERMISSION_DENIED)
         | Some h \<Rightarrow>
             if readOnly t1 then (t1, Returned PERMISSION_DENIED)
             else
               (let numKeys = dim0 keys in
                if numKeys < RDB_BATCH_MODE_MIN_QUERY_SIZE then
                  (remove_point_loop t1 h numKeys (data keys), Returned OK)
                else
                  (db_Write t1 (remove_batch_loop (key_dtype t1) h numKeys (data keys) []),
                   Returned OK))))"

subsection \<open>The dump file\<close>

text \<open>
  \<open>ExportValues\<close> and \<open>ImportValues\<close> work on the one file \<open>RDB_EXPORT_PATH\<close>. The file
  system is that file: its contents when it exists, and whether it can be opened for
  writing.
\<close>

record filesystem =
  dump_file :: "bytes option"
  dump_writable :: bool

text \<open>
  A \<open>std::ifstream\<close>: the bytes not yet read and the two state bits the code tests.
  \<open>read\<close> of \<open>n\<close> bytes on a stream that is not good only sets \<open>failbit\<close>; with fewer
  than \<open>n\<close> bytes left it takes what is there and sets \<open>eofbit\<close> and \<open>failbit\<close>;
  otherwise it takes \<open>n\<close> bytes and sets nothing, also when these were the last ones.
  \<open>!file.read(...)\<close> is \<open>failbit\<close> afterwards, \<open>file.eof()\<close> is \<open>eofbit\<close>.
\<close>

record ifstream =
  rest :: bytes
  eofbit :: bool
  failbit :: bool

definition ifstream_read :: "nat \<Rightarrow> ifstream \<Rightarrow> bytes \<times> ifstream" where
  "ifstream_read n file =
     (if eofbit file \<or> failbit file then ([], file\<lparr>failbit := True\<rparr>)
      else if n \<le> length (rest file) then (take n (rest file), file\<lparr>rest := drop n (rest file)\<rparr>)
      else (rest file, file\<lparr>rest := [], eofbit := True, failbit := True\<rparr>))"

subsection \<open>\<open>ExportValues\<close>\<close>

definition export_header :: bytes where
  "export_header = bytes_of_u32 RDB_EXPORT_FILE_MAGIC @ bytes_of_u32 RDB_EXPORT_FILE_VERSION"

text \<open>The loop over the iterator; \<open>file\<close> is what has been written so far.\<close>

fun export_loop :: "(bytes \<times> bytes) list \<Rightarrow> bytes \<Rightarrow> outcome \<times> bytes" where
  "export_loop [] file = (Returned OK, file)"
| "export_loop (kv # it) file =
     (let kSlice = fst kv; vSlice = snd kv in
      if length kSlice > 255 then
        (Thrown ''A key in the database is too long. Has the database been tampered with?'', file)
      else
        (let kSize = (of_nat (length kSlice) :: 8 word);
             file1 = file @ [kSize] @ take (unat kSize) kSlice
         in if length vSlice > 2 ^ 32 - 1 then
              (Thrown ''A value in the database is too large. Has the database been tampered with?'',
               file1)
            else
              (let vSize = (of_nat (length vSlice) :: 32 word);
                   file2 = file1 @ bytes_of_u32 vSize @ take (unat vSize) vSlice
               in export_loop it file2)))"

text \<open>
  \<open>ExportValues\<close>. Opening the output stream empties the file; the header is written
  before the handle is asked for. \<open>NewIterator\<close> on a null handle is undefined.
\<close>

definition ExportValues :: "table \<Rightarrow> filesystem \<Rightarrow> table \<times> outcome \<times> filesystem" where
  "ExportValues t fs =
     (if \<not> dump_writable fs then (t, Returned UNKNOWN, fs)
      else
        (let file = export_header;
             (t1, colHandle) = GetOrCreateColumnHandle t
         in case colHandle of
              None \<Rightarrow> (t1, Undefined, fs\<lparr>dump_file := Some file\<rparr>)
            | Some h \<Rightarrow>
                (let (res, file') = export_loop (cf_iterate (colHandles t1 ! h)) file
                 in (t1, res, fs\<lparr>dump_file := Some file'\<rparr>))))"

subsection \<open>\<open>ImportValues\<close>\<close>

text \<open>
  The four reads of one record. \<open>None\<close> is the early \<open>return errorEOF\<close>.
\<close>

definition read_record :: "ifstream \<Rightarrow> (bytes \<times> bytes \<times> ifstream) option" where
  "read_record file =
     (let (kSizeBytes, file1) = ifstream_read 1 file in
      if failbit file1 then None
      else
        (let kSize = unat (hd kSizeBytes);
             (k, file2) = ifstream_read kSize file1
         in if failbit file2 then None
            else
              (let (vSizeBytes, file3) = ifstream_read 4 file2 in
               if failbit file3 then None
               else
                 (let vSize = unat (u32_of_bytes vSizeBytes);
                      (v, file4) = ifstream_read vSize file3
                  in if failbit file4 then None else Some (k, v, file4)))))"

text \<open>
  The loop \<open>while (!file.eof())\<close> together with the statement after it, which writes a
  batch that is not empty. A record is appended to the batch; a batch whose count is a
  multiple of \<open>RDB_BATCH_MODE_MAX_QUERY_SIZE\<close> is written and cleared.
\<close>

function import_loop :: "table \<Rightarrow> nat \<Rightarrow> ifstream \<Rightarrow> batch_op list \<Rightarrow> table \<times> outcome" where
  "import_loop t h file batch =
     (if eofbit file then
        (if length batch \<noteq> 0 then (db_Write t batch, Returned OK) else (t, Returned OK))
      else
        (case read_record file of
           None \<Rightarrow> (t, Returned OUT_OF_RANGE)
         | Some (k, v, file') \<Rightarrow>
             (let batch1 = batch @ [BPut h k v] in
              if length batch1 mod RDB_BATCH_MODE_MAX_QUERY_SIZE = 0 then
                import_loop (db_Write t batch1) h file' []
              else import_loop t h file' batch1)))"
  by pat_completeness auto
termination
proof -
  have rd: "n \<le> length (rest f) \<and> rest f' = drop n (rest f)"
    if "ifstream_read n f = (bs, f')" and "\<not> failbit f'" for n f bs f'
    using that by (auto simp: ifstream_read_def split: if_splits)
  have shorter: "length (rest f') < length (rest f)"
    if rr: "read_record f = Some (k, v, f')" for f k v f'
  proof -
    obtain b1 f1 where r1: "ifstream_read 1 f = (b1, f1)" by fastforce
    obtain b2 f2 where r2: "ifstream_read (unat (hd b1)) f1 = (b2, f2)" by fastforce
    obtain b3 f3 where r3: "ifstream_read 4 f2 = (b3, f3)" by fastforce
    obtain b4 f4 where r4: "ifstream_read (unat (u32_of_bytes b3)) f3 = (b4, f4)" by fastforce
    from rr r1 r2 r3 r4 have ok: "\<not> failbit f1" "\<not> failbit f2" "\<not> failbit f3" "\<not> failbit f4"
      and eq: "f' = f4"
      by (auto simp: read_record_def Let_def split: if_splits)
    from rd [OF r1 ok(1)] have "length (rest f1) < length (rest f)"
      by (cases "rest f") auto
    moreover from rd [OF r2 ok(2)] have "length (rest f2) \<le> length (rest f1)" by simp
    moreover from rd [OF r3 ok(3)] have "length (rest f3) \<le> length (rest f2)" by simp
    moreover from rd [OF r4 ok(4)] have "length (rest f4) \<le> length (rest f3)" by simp
    ultimately show ?thesis using eq by simp
  qed
  show ?thesis
    by (relation "measure (\<lambda>(t, h, file, batch). length (rest file))")
       (auto dest: shorter)
qed

text \<open>The loop equation is unfolded by hand, one iteration at a time.\<close>

declare import_loop.simps [simp del]

definition ImportValues :: "table \<Rightarrow> filesystem \<Rightarrow> table \<times> outcome" where
  "ImportValues t fs =
     (let (t1, clearStatus) = Clear t in
      if clearStatus \<noteq> Returned OK then (t1, clearStatus)
      else
        (case dump_file fs of
           None \<Rightarrow> (t1, Returned NOT_FOUND)
         | Some contents \<Rightarrow>
             (let file = \<lparr>rest = contents, eofbit = False, failbit = False\<rparr>;
                  (magic, file1) = ifstream_read 4 file
              in if failbit file1 then (t1, Returned OUT_OF_RANGE)
                 else
                   (let (version, file2) = ifstream_read 4 file1 in
                    if failbit file2 then (t1, Returned OUT_OF_RANGE)
                    else if \<not> (u32_of_bytes magic = RDB_EXPORT_FILE_MAGIC
                                   \<and> u32_of_bytes version = RDB_EXPORT_FILE_VERSION)
                    then (t1, Returned INTERNAL)
                    else
                      (let (t2, colHandle) = GetOrCreateColumnHandle t1 in
                       case colHandle of
                         None \<Rightarrow> (t2, Returned PERMISSION_DENIED)
                       | Some h \<Rightarrow>
                           if readOnly t2 then (t2, Returned PERMISSION_DENIED)
                           else import_loop t2 h file2 [])))))"

section \<open>What the properties are stated with\<close>

text \<open>
  The arguments \<open>Find\<close> accepts and can work on: matching element types, as many
  values as keys, at least one key, a value tensor and a default tensor that are not empty,
  a default tensor of a whole number of rows, and a key buffer that holds the keys.
\<close>

definition find_preconditions :: "table \<Rightarrow> tensor \<Rightarrow> tensor \<Rightarrow> tensor \<Rightarrow> bool" where
  "find_preconditions t keys values default_value =
     (dtype keys = key_dtype t \<and> dtype values = value_dtype t
      \<and> dtype default_value = value_dtype t
      \<and> dim0 keys = dim0 values \<and> 0 < dim0 values
      \<and> 0 < NumElements values \<and> NumElements values mod dim0 values = 0
      \<and> 0 < NumElements default_value
      \<and> NumElements default_value mod (NumElements values div dim0 values) = 0
      \<and> dim0 keys \<le> NumElements keys)"

text \<open>
  Row \<open>i\<close> of the tiled default: \<open>valuesPerKey\<close> elements of the default tensor from
  position \<open>(i * valuesPerKey) mod len\<close> on.
\<close>

definition default_tile :: "bytes list \<Rightarrow> nat \<Rightarrow> nat \<Rightarrow> bytes list" where
  "default_tile d valuesPerKey i = take valuesPerKey (drop ((i * valuesPerKey) mod length d) d)"

text \<open>The records of the table's namespace; none when the namespace does not exist.\<close>

definition stored_records :: "table \<Rightarrow> column_family" where
  "stored_records t = (if namespace_present t then colHandles t ! colIndex t else [])"

text \<open>
  The snapshot format in the words of the specification: a record is framed as
  \<open>uint8\<close> key length, key bytes, \<open>uint32\<close> value length, value bytes; the lengths
  must fit their fields.
\<close>

definition frame :: "bytes \<times> bytes \<Rightarrow> bytes" where
  "frame kv =
     [of_nat (length (fst kv)) :: 8 word] @ fst kv
       @ bytes_of_u32 (of_nat (length (snd kv))) @ snd kv"

definition record_fits :: "bytes \<times> bytes \<Rightarrow> bool" where
  "record_fits kv = (length (fst kv) \<le> 255 \<and> length (snd kv) \<le> 2 ^ 32 - 1)"

text \<open>
  What an export of the records \<open>recs\<close> ends in, and what it has written after the
  header by then: every frame when all records fit; otherwise the frames of the records
  before the first one that does not fit, and of that one nothing when its key is too
  long, its key length and key when only its value is too large.
\<close>

definition export_result :: "(bytes \<times> bytes) list \<Rightarrow> outcome \<times> bytes" where
  "export_result recs =
     (case dropWhile record_fits recs of
        [] \<Rightarrow> (Returned OK, concat (map frame recs))
      | kv # _ \<Rightarrow>
          if 255 < length (fst kv) then
            (Thrown ''A key in the database is too long. Has the database been tampered with?'',
             concat (map frame (takeWhile record_fits recs)))
          else
            (Thrown ''A value in the database is too large. Has the database been tampered with?'',
             concat (map frame (takeWhile record_fits recs))
               @ [of_nat (length (fst kv)) :: 8 word] @ fst kv))"

text \<open>A file whose first eight bytes are the expected magic and version.\<close>

definition header_accepted :: "bytes \<Rightarrow> bool" where
  "header_accepted contents =
     (8 \<le> length contents
      \<and> u32_of_bytes (take 4 contents) = RDB_EXPORT_FILE_MAGIC
      \<and> u32_of_bytes (take 4 (drop 4 contents)) = RDB_EXPORT_FILE_VERSION)"

text \<open>A stored value that \<open>copyToTensor\<close> accepts for a row of the table.\<close>

definition decodable :: "DataType \<Rightarrow> nat \<Rightarrow> bytes \<times> bytes \<Rightarrow> bool" where
  "decodable V n kv = (case copyToTensor V (snd kv) n of Inl msg \<Rightarrow> False | Inr xs \<Rightarrow> True)"

text \<open>The write batch that puts the given records, in their order, on one handle.\<close>

definition puts :: "nat \<Rightarrow> (bytes \<times> bytes) list \<Rightarrow> batch_op list" where
  "puts h recs = map (\<lambda>kv. BPut h (fst kv) (snd kv)) recs"

text \<open>A write batch of deletions on one handle.\<close>

definition deletes_only :: "nat \<Rightarrow> batch_op list \<Rightarrow> bool" where
  "deletes_only h ops = list_all (\<lambda>op. case op of BDelete h' k \<Rightarrow> h' = h | BPut h' k v \<Rightarrow> False) ops"

subsection \<open>Concrete tables, tensors and files\<close>

text \<open>
  A table of \<open>int64\<close> keys and rows of three \<open>int8\<close> values whose column family is
  the second one of the database (the first is RocksDB's \<open>default\<close>), key tensors at
  address \<open>0x1000\<close>, and the dump file.
\<close>

definition key7 :: bytes where "key7 = [7, 0, 0, 0, 0, 0, 0, 0]"

definition key8 :: bytes where "key8 = [8, 0, 0, 0, 0, 0, 0, 0]"

definition key9 :: bytes where "key9 = [9, 0, 0, 0, 0, 0, 0, 0]"

definition ex_table :: "bool \<Rightarrow> column_family list \<Rightarrow> table" where
  "ex_table ro cfs =
     \<lparr>key_dtype = DT_INT64, value_dtype = DT_INT8, readOnly = ro,
      colHandles = cfs, colIndex = 1, colHandleCache = []\<rparr>"

text \<open>A read-write table whose \<open>embedding_name\<close> is \<open>default\<close>.\<close>

definition ex_table_default :: "column_family list \<Rightarrow> table" where
  "ex_table_default cfs =
     \<lparr>key_dtype = DT_INT64, value_dtype = DT_INT8, readOnly = False,
      colHandles = cfs, colIndex = 0, colHandleCache = []\<rparr>"

definition ex_keys1 :: tensor where
  "ex_keys1 = \<lparr>dtype = DT_INT64, dim0 = 1, elems = [key7], data = 0x1000\<rparr>"

definition ex_keys2 :: tensor where
  "ex_keys2 = \<lparr>dtype = DT_INT64, dim0 = 2, elems = [key7, key8], data = 0x1000\<rparr>"

definition ex_values1 :: tensor where
  "ex_values1 = \<lparr>dtype = DT_INT8, dim0 = 1, elems = [[1], [2], [3]], data = 0x2000\<rparr>"

definition ex_out1 :: tensor where
  "ex_out1 = \<lparr>dtype = DT_INT8, dim0 = 1, elems = [[0], [0], [0]], data = 0x3000\<rparr>"

definition ex_out2 :: tensor where
  "ex_out2 = \<lparr>dtype = DT_INT8, dim0 = 2, elems = [[0], [0], [0], [0], [0], [0]], data = 0x3000\<rparr>"

definition ex_default :: tensor where
  "ex_default = \<lparr>dtype = DT_INT8, dim0 = 3, elems = [[9], [9], [9]], data = 0x4000\<rparr>"

definition ex_default_empty :: tensor where
  "ex_default_empty = \<lparr>dtype = DT_INT8, dim0 = 0, elems = [], data = 0x4000\<rparr>"

definition ex_fs :: "bytes option \<Rightarrow> filesystem" where
  "ex_fs contents = \<lparr>dump_file = contents, dump_writable = True\<rparr>"

section \<open>Lemmas\<close>

subsection \<open>Rows from the default tensor\<close>

text \<open>
  Once the default tensor is not empty and holds a whole number of rows, the copy for row
  \<open>i\<close> stays inside it; a loop over statuses that are all \<open>NotFound\<close> writes the tiled
  default, and the loop of the point path is such a loop when there is no handle or the
  column family is empty.
\<close>

lemma tile_in_bounds:
  fixes dSize vpd i :: nat
  assumes "0 < dSize" and "0 < vpd" and "dSize mod vpd = 0"
  shows "(i * vpd) mod dSize + vpd \<le> dSize"
proof -
  from assms obtain m where m: "dSize = vpd * m" by (auto simp: mod_eq_0_iff_dvd)
  with assms have mpos: "0 < m" by (cases m) auto
  have "(i * vpd) mod dSize = vpd * (i mod m)"
    by (simp add: m mult.commute [of i vpd])
  moreover from mpos have "i mod m + 1 \<le> m" by (simp add: Suc_leI)
  then have "vpd * (i mod m + 1) \<le> vpd * m" by (rule mult_le_mono2)
  ultimately show ?thesis by (simp add: m)
qed

lemma copy_default_tile:
  assumes "0 < length d" and "0 < vpd" and "length d mod vpd = 0"
  shows "copy_default d (i * vpd) vpd v = Inr (write_at v (i * vpd) (default_tile d vpd i))"
  using tile_in_bounds [OF assms, of i] assms
  by (simp add: copy_default_def default_tile_def Let_def)

lemma length_default_tile:
  assumes "0 < length d" and "0 < vpd" and "length d mod vpd = 0"
  shows "length (default_tile d vpd i) = vpd"
  using tile_in_bounds [OF assms, of i] by (simp add: default_tile_def)

lemma find_bulk_loop_all_missing:
  assumes d: "0 < length d" "0 < vpd" "length d mod vpd = 0"
  shows "(i + n) * vpd \<le> length v \<Longrightarrow>
     find_bulk_loop V vpd d (replicate n (Rdb_NotFound, [])) (i * vpd) v =
       (Returned OK,
        take (i * vpd) v @ concat (map (default_tile d vpd) [i ..< i + n]) @ drop ((i + n) * vpd) v)"
proof (induction n arbitrary: i v)
  case 0
  then show ?case by simp
next
  case (Suc n)
  let ?tile = "default_tile d vpd i"
  let ?v1 = "write_at v (i * vpd) ?tile"
  have len_tile: "length ?tile = vpd" by (rule length_default_tile [OF d])
  from Suc.prems have bound: "i * vpd + vpd \<le> length v" by (simp add: algebra_simps)
  have len_v1: "length ?v1 = length v"
    using bound by (simp add: write_at_def len_tile)
  have take_v1: "take (Suc i * vpd) ?v1 = take (i * vpd) v @ ?tile"
    using bound by (simp add: write_at_def len_tile)
  have drop_v1: "drop ((Suc i + n) * vpd) ?v1 = drop ((i + Suc n) * vpd) v"
    using bound by (simp add: write_at_def len_tile algebra_simps)
  have ups: "[i ..< i + Suc n] = i # [Suc i ..< Suc i + n]"
    using upt_conv_Cons [of i "i + Suc n"] by simp
  have step: "find_slot V vpd d (i * vpd) (Rdb_NotFound, []) v = Inr ?v1"
    by (simp add: find_slot_def copy_default_tile [OF d])
  have "(Suc i + n) * vpd \<le> length ?v1" using Suc.prems len_v1 by simp
  from Suc.IH [OF this]
  have IH: "find_bulk_loop V vpd d (replicate n (Rdb_NotFound, [])) (Suc i * vpd) ?v1 =
      (Returned OK, take (Suc i * vpd) ?v1 @ concat (map (default_tile d vpd) [Suc i ..< Suc i + n])
         @ drop ((Suc i + n) * vpd) ?v1)" .
  have "find_bulk_loop V vpd d (replicate (Suc n) (Rdb_NotFound, [])) (i * vpd) v =
          find_bulk_loop V vpd d (replicate n (Rdb_NotFound, [])) (Suc i * vpd) ?v1"
    using step by (simp add: add.commute)
  also note IH
  also have "take (Suc i * vpd) ?v1 @ concat (map (default_tile d vpd) [Suc i ..< Suc i + n])
         @ drop ((Suc i + n) * vpd) ?v1 =
       take (i * vpd) v @ concat (map (default_tile d vpd) [i ..< i + Suc n])
         @ drop ((i + Suc n) * vpd) v"
    unfolding take_v1 drop_v1 ups by simp
  finally show ?case .
qed

lemma find_point_loop_all_missing:
  assumes "colHandle = None \<or> (\<exists>h. colHandle = Some h \<and> colHandles t ! h = [])"
  shows "find_point_loop t colHandle vpd d n k off v =
           find_bulk_loop (value_dtype t) vpd d (replicate n (Rdb_NotFound, [])) off v"
proof (induction n arbitrary: k off v)
  case 0
  show ?case by simp
next
  case (Suc n)
  have "(case colHandle of Some h \<Rightarrow> db_Get t h (assignSlice_ptr k) | None \<Rightarrow> (Rdb_NotFound, []))
          = (Rdb_NotFound, [])"
    using assms by (auto simp: db_Get_def cf_get_def)
  then show ?case using Suc.IH by (simp add: Let_def split: sum.splits)
qed

subsection \<open>\<open>Find\<close> on a table without a namespace\<close>

lemma GetOrCreateColumnHandle_absent_readOnly:
  "readOnly t \<Longrightarrow> \<not> namespace_present t \<Longrightarrow> GetOrCreateColumnHandle t = (t, None)"
  by (simp add: GetOrCreateColumnHandle_def namespace_present_def)

lemma GetOrCreateColumnHandle_present:
  "namespace_present t \<Longrightarrow> GetOrCreateColumnHandle t = (t, Some (colIndex t))"
  by (simp add: GetOrCreateColumnHandle_def namespace_present_def)

lemma GetOrCreateColumnHandle_absent_writable:
  "\<not> readOnly t \<Longrightarrow> \<not> namespace_present t \<Longrightarrow>
     GetOrCreateColumnHandle t = (t\<lparr>colHandles := colHandles t @ [[]]\<rparr>, Some (colIndex t))"
  by (simp add: GetOrCreateColumnHandle_def namespace_present_def)

lemma absent_index:
  "table_ok t \<Longrightarrow> \<not> namespace_present t \<Longrightarrow> colIndex t = length (colHandles t)"
  by (simp add: table_ok_def namespace_present_def)

lemma find_preconditions_vpd:
  assumes "find_preconditions t keys values dv"
  shows "0 < NumElements values div dim0 values"
    and "dim0 values * (NumElements values div dim0 values) = NumElements values"
proof -
  from assms have pos: "0 < dim0 values" "0 < NumElements values"
    and dv: "NumElements values mod dim0 values = 0"
    by (simp_all add: find_preconditions_def)
  from dv show eq: "dim0 values * (NumElements values div dim0 values) = NumElements values"
    by (simp add: mod_eq_0_iff_dvd)
  with pos show "0 < NumElements values div dim0 values"
    by (cases "NumElements values div dim0 values") auto
qed

lemma all_missing_output:
  assumes pre: "find_preconditions t keys values dv"
  shows "find_bulk_loop V (NumElements values div dim0 values) (elems dv)
           (replicate (dim0 keys) (Rdb_NotFound, [])) 0 (elems values) =
         (Returned OK,
          concat (map (default_tile (elems dv) (NumElements values div dim0 values)) [0 ..< dim0 keys]))"
proof -
  let ?vpd = "NumElements values div dim0 values"
  from pre have d: "0 < length (elems dv)" "length (elems dv) mod ?vpd = 0" and nk: "dim0 keys = dim0 values"
    by (simp_all add: find_preconditions_def NumElements_def)
  note vpd = find_preconditions_vpd [OF pre]
  have len: "(0 + dim0 keys) * ?vpd = length (elems values)"
    using vpd(2) nk by (simp add: NumElements_def mult.commute)
  have "find_bulk_loop V ?vpd (elems dv) (replicate (dim0 keys) (Rdb_NotFound, [])) (0 * ?vpd) (elems values) =
       (Returned OK, take (0 * ?vpd) (elems values)
          @ concat (map (default_tile (elems dv) ?vpd) [0 ..< 0 + dim0 keys])
          @ drop ((0 + dim0 keys) * ?vpd) (elems values))"
    by (rule find_bulk_loop_all_missing [OF d(1) vpd(1) d(2)]) (use len in simp)
  then show ?thesis using len by simp
qed

lemma Find_absent_readOnly:
  assumes ro: "readOnly t" and ab: "\<not> namespace_present t"
    and pre: "find_preconditions t keys values dv"
  shows "Find t keys values dv =
     ((if dim0 keys < RDB_BATCH_MODE_MIN_QUERY_SIZE then t
       else t\<lparr>colHandleCache :=
                colHandleCache t @ replicate (dim0 keys - length (colHandleCache t)) None\<rparr>),
      Returned OK,
      concat (map (default_tile (elems dv) (NumElements values div dim0 values)) [0 ..< dim0 keys]))"
proof -
  let ?vpd = "NumElements values div dim0 values"
  note vpd = find_preconditions_vpd [OF pre]
  from pre have basics: "dtype keys = key_dtype t" "dtype values = value_dtype t"
    "dtype dv = value_dtype t" "dim0 keys = dim0 values" "0 < dim0 values"
    "NumElements dv mod ?vpd = 0" "dim0 keys \<le> NumElements keys"
    by (simp_all add: find_preconditions_def)
  show ?thesis
  proof (cases "dim0 keys < RDB_BATCH_MODE_MIN_QUERY_SIZE")
    case True
    have "find_point_loop t None ?vpd (elems dv) (dim0 keys) (data keys) 0 (elems values) =
        find_bulk_loop (value_dtype t) ?vpd (elems dv) (replicate (dim0 keys) (Rdb_NotFound, [])) 0 (elems values)"
      by (rule find_point_loop_all_missing) simp
    with True basics vpd(1) all_missing_output [OF pre, of "value_dtype t"] show ?thesis
      by (simp add: Find_def Let_def GetOrCreateColumnHandle_absent_readOnly [OF ro ab])
  next
    case False
    with basics vpd(1) all_missing_output [OF pre, of "value_dtype t"] show ?thesis
      by (simp add: Find_def Let_def GetOrCreateColumnHandle_absent_readOnly [OF ro ab]
          find_bulk_def NumElements_def)
  qed
qed

lemma Find_absent_writable_point:
  assumes rw: "\<not> readOnly t" and ok: "table_ok t" and ab: "\<not> namespace_present t"
    and pre: "find_preconditions t keys values dv"
    and small: "dim0 keys < RDB_BATCH_MODE_MIN_QUERY_SIZE"
  shows "Find t keys values dv =
     (t\<lparr>colHandles := colHandles t @ [[]]\<rparr>, Returned OK,
      concat (map (default_tile (elems dv) (NumElements values div dim0 values)) [0 ..< dim0 keys]))"
proof -
  let ?vpd = "NumElements values div dim0 values"
  let ?t1 = "t\<lparr>colHandles := colHandles t @ [[]]\<rparr>"
  note vpd = find_preconditions_vpd [OF pre]
  from pre have basics: "dtype keys = key_dtype t" "dtype values = value_dtype t"
    "dtype dv = value_dtype t" "dim0 keys = dim0 values" "0 < dim0 values"
    "NumElements dv mod ?vpd = 0"
    by (simp_all add: find_preconditions_def)
  have empty: "colHandles ?t1 ! colIndex t = []"
    by (simp add: absent_index [OF ok ab])
  have "find_point_loop ?t1 (Some (colIndex t)) ?vpd (elems dv) (dim0 keys) (data keys) 0 (elems values) =
        find_bulk_loop (value_dtype ?t1) ?vpd (elems dv) (replicate (dim0 keys) (Rdb_NotFound, [])) 0 (elems values)"
    by (rule find_point_loop_all_missing) (use empty in blast)
  with small basics vpd(1) all_missing_output [OF pre, of "value_dtype t"] show ?thesis
    by (simp add: Find_def Let_def GetOrCreateColumnHandle_absent_writable [OF rw ab])
qed

subsection \<open>\<open>Remove\<close> on an empty column family\<close>

lemma db_Delete_empty:
  "h < length (colHandles t) \<Longrightarrow> colHandles t ! h = [] \<Longrightarrow> db_Delete t h k = t"
  by (simp add: db_Delete_def list_update_same_conv)

lemma remove_point_loop_empty:
  "h < length (colHandles t) \<Longrightarrow> colHandles t ! h = [] \<Longrightarrow> remove_point_loop t h n k = t"
  by (induction n arbitrary: k) (simp_all add: db_Delete_empty)

lemma remove_batch_loop_deletes:
  "deletes_only h batch \<Longrightarrow> deletes_only h (remove_batch_loop K h n k batch)"
  by (induction n arbitrary: k batch) (simp_all add: deletes_only_def)

lemma db_Write_deletes_empty:
  "h < length (colHandles t) \<Longrightarrow> colHandles t ! h = [] \<Longrightarrow> deletes_only h ops \<Longrightarrow> db_Write t ops = t"
proof (induction ops)
  case Nil
  show ?case by simp
next
  case (Cons op ops)
  then show ?case
    by (cases op) (simp_all add: deletes_only_def db_Delete_empty)
qed

lemma Remove_absent_writable:
  assumes rw: "\<not> readOnly t" and ok: "table_ok t" and ab: "\<not> namespace_present t"
    and dt: "dtype keys = key_dtype t"
  shows "Remove t keys = (t\<lparr>colHandles := colHandles t @ [[]]\<rparr>, Returned OK)"
proof -
  let ?t1 = "t\<lparr>colHandles := colHandles t @ [[]]\<rparr>"
  have h: "colIndex t < length (colHandles ?t1)" and e: "colHandles ?t1 ! colIndex t = []"
    by (simp_all add: absent_index [OF ok ab])
  have p: "remove_point_loop ?t1 (colIndex t) (dim0 keys) (data keys) = ?t1"
    by (rule remove_point_loop_empty [OF h e])
  have "deletes_only (colIndex t) (remove_batch_loop (key_dtype ?t1) (colIndex t) (dim0 keys) (data keys) [])"
    by (rule remove_batch_loop_deletes) (simp add: deletes_only_def)
  then have b: "db_Write ?t1 (remove_batch_loop (key_dtype ?t1) (colIndex t) (dim0 keys) (data keys) []) = ?t1"
    by (rule db_Write_deletes_empty [OF h e])
  show ?thesis
    using rw dt p b
    by (simp add: Remove_def Let_def GetOrCreateColumnHandle_absent_writable [OF rw ab])
qed

subsection \<open>Read-only tables, \<open>Clear\<close>, and the header of the dump file\<close>

lemma Insert_readOnly:
  assumes "readOnly t" "dtype keys = key_dtype t" "dtype values = value_dtype t"
  shows "Insert t keys values = (t, Returned PERMISSION_DENIED)"
  using assms by (simp add: Insert_def GetOrCreateColumnHandle_def)

lemma Remove_readOnly:
  assumes "readOnly t" "dtype keys = key_dtype t"
  shows "Remove t keys = (t, Returned PERMISSION_DENIED)"
  using assms by (simp add: Remove_def GetOrCreateColumnHandle_def)

lemma Clear_readOnly_present:
  assumes "readOnly t" "namespace_present t"
  shows "Clear t = (t\<lparr>colHandleCache := []\<rparr>, Returned PERMISSION_DENIED)"
  using assms by (simp add: Clear_def namespace_present_def)

lemma Clear_absent:
  assumes "\<not> namespace_present t"
  shows "Clear t = (t\<lparr>colHandleCache := []\<rparr>, Returned OK)"
  using assms by (simp add: Clear_def namespace_present_def)

lemma Clear_default_family:
  assumes "\<not> readOnly t" "namespace_present t" "colIndex t = 0"
  shows "Clear t = (t\<lparr>colHandleCache := []\<rparr>, Thrown ''s.getState()'')"
  using assms by (simp add: Clear_def namespace_present_def db_DropColumnFamily_def)

lemma Clear_writable_present:
  assumes "\<not> readOnly t" "namespace_present t" "0 < colIndex t"
  shows "Clear t =
     (t\<lparr>colHandleCache := [],
        colHandles := take (colIndex t) (colHandles t) @ drop (Suc (colIndex t)) (colHandles t),
        colIndex := length (take (colIndex t) (colHandles t) @ drop (Suc (colIndex t)) (colHandles t))\<rparr>,
      Returned OK)"
  using assms by (simp add: Clear_def namespace_present_def Let_def db_DropColumnFamily_def)

lemma Clear_OK_absent:
  assumes "snd (Clear t) = Returned OK"
  shows "\<not> namespace_present (fst (Clear t))"
  using assms by (auto simp: Clear_def namespace_present_def Let_def split: if_splits)

lemma ImportValues_readOnly_present:
  assumes "readOnly t" "namespace_present t"
  shows "ImportValues t fs = (t\<lparr>colHandleCache := []\<rparr>, Returned PERMISSION_DENIED)"
  using assms by (simp add: ImportValues_def Clear_readOnly_present)

lemma read_header:
  assumes "8 \<le> length contents"
  shows "ifstream_read 4 \<lparr>rest = contents, eofbit = False, failbit = False\<rparr> =
           (take 4 contents, \<lparr>rest = drop 4 contents, eofbit = False, failbit = False\<rparr>)"
    and "ifstream_read 4 \<lparr>rest = drop 4 contents, eofbit = False, failbit = False\<rparr> =
           (take 4 (drop 4 contents), \<lparr>rest = drop 8 contents, eofbit = False, failbit = False\<rparr>)"
  using assms by (simp_all add: ifstream_read_def)

lemma ImportValues_readOnly_absent:
  assumes ro: "readOnly t" and ab: "\<not> namespace_present t"
    and f: "dump_file fs = Some contents" and h: "header_accepted contents"
  shows "ImportValues t fs = (t\<lparr>colHandleCache := []\<rparr>, Returned PERMISSION_DENIED)"
proof -
  from h have len: "8 \<le> length contents" by (simp add: header_accepted_def)
  have g: "GetOrCreateColumnHandle (t\<lparr>colHandleCache := []\<rparr>) = (t\<lparr>colHandleCache := []\<rparr>, None)"
    using ro ab by (simp add: GetOrCreateColumnHandle_def namespace_present_def)
  show ?thesis
    using h f by (simp add: ImportValues_def Clear_absent [OF ab] read_header [OF len] g header_accepted_def)
qed

lemma ImportValues_default_family:
  assumes "\<not> readOnly t" "namespace_present t" "colIndex t = 0"
  shows "ImportValues t fs = (t\<lparr>colHandleCache := []\<rparr>, Thrown ''s.getState()'')"
  using assms by (simp add: ImportValues_def Clear_default_family)

lemma ImportValues_no_file:
  assumes "\<not> namespace_present t" "dump_file fs = None"
  shows "ImportValues t fs = (t\<lparr>colHandleCache := []\<rparr>, Returned NOT_FOUND)"
  using assms by (simp add: ImportValues_def Clear_absent)

lemma ImportValues_bad_header:
  assumes c: "snd (Clear t) = Returned OK"
    and f: "dump_file fs = Some contents" and len: "8 \<le> length contents"
    and bad: "\<not> header_accepted contents"
  shows "ImportValues t fs = (fst (Clear t), Returned INTERNAL)"
proof -
  obtain t1 where t1: "Clear t = (t1, Returned OK)" using c by (cases "Clear t") simp
  show ?thesis
    using f bad len by (simp add: ImportValues_def t1 read_header [OF len] header_accepted_def)
qed

subsection \<open>\<open>Find\<close> and \<open>ExportValues\<close> never return \<open>PERMISSION_DENIED\<close>\<close>

lemma find_slot_not_denied: "find_slot V vpd d off r v \<noteq> Inl (Returned c)"
  by (auto simp: find_slot_def copy_default_def Let_def split: rdb_status.splits sum.splits)

lemma find_bulk_loop_not_denied:
  "fst (find_bulk_loop V vpd d rs off v) \<noteq> Returned PERMISSION_DENIED"
proof (induction rs arbitrary: off v)
  case Nil
  show ?case by simp
next
  case (Cons r rs)
  show ?case
  proof (cases "find_slot V vpd d off r v")
    case (Inl e)
    with find_slot_not_denied [of V vpd d off r v PERMISSION_DENIED] show ?thesis by auto
  next
    case (Inr v')
    with Cons.IH show ?thesis by simp
  qed
qed

lemma find_point_loop_not_denied:
  "fst (find_point_loop t colHandle vpd d n k off v) \<noteq> Returned PERMISSION_DENIED"
proof (induction n arbitrary: k off v)
  case 0
  show ?case by simp
next
  case (Suc n)
  let ?r = "case colHandle of Some h \<Rightarrow> db_Get t h (assignSlice_ptr k) | None \<Rightarrow> (Rdb_NotFound, [])"
  show ?case
  proof (cases "find_slot (value_dtype t) vpd d off ?r v")
    case (Inl e)
    with find_slot_not_denied [of "value_dtype t" vpd d off ?r v PERMISSION_DENIED] show ?thesis
      by (auto simp: Let_def)
  next
    case (Inr v')
    with Suc.IH show ?thesis by (simp add: Let_def)
  qed
qed

lemma Find_not_denied:
  "fst (snd (Find t keys values dv)) \<noteq> Returned PERMISSION_DENIED"
proof -
  have b: "fst (snd (find_bulk t' ch vpd d n ks v)) \<noteq> Returned PERMISSION_DENIED" for t' ch vpd d n ks v
    using find_bulk_loop_not_denied
    by (auto simp: find_bulk_def Let_def split: option.splits prod.splits)
  have p: "fst (find_point_loop t' ch vpd d n k off v) \<noteq> Returned PERMISSION_DENIED" for t' ch vpd d n k off v
    by (rule find_point_loop_not_denied)
  show ?thesis
    using b p by (auto simp: Find_def Let_def split: prod.splits)
qed

subsection \<open>The export loop\<close>

lemma unat_key_size: "length k \<le> 255 \<Longrightarrow> unat (of_nat (length k) :: 8 word) = length k"
  by (simp add: unat_of_nat)

lemma unat_value_size: "length v \<le> 2 ^ 32 - 1 \<Longrightarrow> unat (of_nat (length v) :: 32 word) = length v"
  by (simp add: unat_of_nat)

lemma export_loop_fits:
  "list_all record_fits it \<Longrightarrow> export_loop it out = (Returned OK, out @ concat (map frame it))"
proof (induction it arbitrary: out)
  case Nil
  show ?case by simp
next
  case (Cons kv it)
  from Cons.prems have kv: "record_fits kv" and rest: "list_all record_fits it"
    by simp_all
  from kv have k: "length (fst kv) \<le> 255" and v: "length (snd kv) \<le> 2 ^ 32 - 1"
    by (simp_all add: record_fits_def)
  have nk: "\<not> 255 < length (fst kv)" using k by simp
  have nv: "\<not> 2 ^ 32 - 1 < length (snd kv)" using v by simp
  have fr: "frame kv = (of_nat (length (fst kv)) :: 8 word) # fst kv
      @ bytes_of_u32 (of_nat (length (snd kv))) @ snd kv"
    by (simp add: frame_def)
  show ?case
    by (simp only: export_loop.simps Let_def nk nv if_False unat_key_size [OF k]
        unat_value_size [OF v] Cons.IH [OF rest])
       (simp add: fr)
qed

lemma export_loop_outcomes:
  "\<exists>out'. (export_loop it out = (Returned OK, out') \<or> (\<exists>msg. export_loop it out = (Thrown msg, out')))
      \<and> take (length out) out' = out"
proof (induction it arbitrary: out)
  case Nil
  show ?case by simp
next
  case (Cons kv it)
  show ?case
  proof (cases "255 < length (fst kv)")
    case True
    then show ?thesis by simp
  next
    case k: False
    show ?thesis
    proof (cases "2 ^ 32 - 1 < length (snd kv)")
      case True
      with k show ?thesis by (simp add: Let_def)
    next
      case v: False
      let ?out2 = "out @ [of_nat (length (fst kv)) :: 8 word]
          @ take (unat (of_nat (length (fst kv)) :: 8 word)) (fst kv)
          @ bytes_of_u32 (of_nat (length (snd kv)))
          @ take (unat (of_nat (length (snd kv)) :: 32 word)) (snd kv)"
      from Cons.IH [of ?out2] obtain out' where
        o: "export_loop it ?out2 = (Returned OK, out') \<or> (\<exists>msg. export_loop it ?out2 = (Thrown msg, out'))"
        and p: "take (length ?out2) out' = ?out2" by blast
      have "take (length out) (take (length ?out2) out') = out"
        unfolding p by simp
      then have "take (length out) out' = out" by (simp add: min_def split: if_splits)
      with o k v show ?thesis by (auto simp: Let_def)
    qed
  qed
qed

lemma export_loop_exact:
  "export_loop it out = (fst (export_result it), out @ snd (export_result it))"
proof (induction it arbitrary: out)
  case Nil
  show ?case by (simp add: export_result_def)
next
  case (Cons kv it)
  show ?case
  proof (cases "record_fits kv")
    case True
    then have k: "length (fst kv) \<le> 255" and v: "length (snd kv) \<le> 2 ^ 32 - 1"
      by (simp_all add: record_fits_def)
    have nk: "\<not> 255 < length (fst kv)" using k by simp
    have nv: "\<not> 2 ^ 32 - 1 < length (snd kv)" using v by simp
    have fr: "frame kv = (of_nat (length (fst kv)) :: 8 word) # fst kv
        @ bytes_of_u32 (of_nat (length (snd kv))) @ snd kv"
      by (simp add: frame_def)
    have r: "export_result (kv # it) = (fst (export_result it), frame kv @ snd (export_result it))"
      using True
      by (cases "dropWhile record_fits it")
         (simp_all add: export_result_def del: dropWhile_eq_Nil_conv)
    show ?thesis
      unfolding r
      by (simp only: export_loop.simps Let_def nk nv if_False unat_key_size [OF k]
          unat_value_size [OF v] Cons.IH)
         (simp add: fr)
  next
    case False
    have r: "export_result (kv # it) =
        (if 255 < length (fst kv) then
           (Thrown ''A key in the database is too long. Has the database been tampered with?'', [])
         else
           (Thrown ''A value in the database is too large. Has the database been tampered with?'',
            [of_nat (length (fst kv)) :: 8 word] @ fst kv))"
      using False by (simp add: export_result_def)
    show ?thesis
    proof (cases "255 < length (fst kv)")
      case True
      then show ?thesis unfolding r by simp
    next
      case k: False
      with False have v: "2 ^ 32 - 1 < length (snd kv)" by (simp add: record_fits_def)
      from k have k': "length (fst kv) \<le> 255" by simp
      show ?thesis
        unfolding r
        by (simp only: export_loop.simps Let_def k v if_True if_False unat_key_size [OF k'])
           simp
    qed
  qed
qed

lemma export_header_bytes: "export_header = [0x54, 0x46, 0x4B, 0x56, 1, 0, 0, 0]"
  by (simp add: export_header_def bytes_of_u32_def RDB_EXPORT_FILE_MAGIC_def
      RDB_EXPORT_FILE_VERSION_def)

lemma cf_iterate_props:
  "sorted (map fst (cf_iterate cf))" "set (cf_iterate cf) = set cf"
  "length (cf_iterate cf) = length cf"
  "distinct (map fst cf) \<Longrightarrow> sorted_wrt (<) (map fst (cf_iterate cf))"
proof -
  show s: "sorted (map fst (cf_iterate cf))" by (simp add: cf_iterate_def)
  show "set (cf_iterate cf) = set cf" by (simp add: cf_iterate_def)
  show "length (cf_iterate cf) = length cf" by (simp add: cf_iterate_def)
  assume "distinct (map fst cf)"
  then have "distinct (map fst (cf_iterate cf))"
    by (simp add: cf_iterate_def distinct_map inj_on_def) 
  with s show "sorted_wrt (<) (map fst (cf_iterate cf))"
    by (simp add: strict_sorted_iff)
qed

lemma list_all_cf_iterate: "list_all P (cf_iterate cf) = list_all P cf"
  by (simp add: list_all_iff cf_iterate_props(2))

lemma export_handle:
  assumes ok: "table_ok t" and h: "namespace_present t \<or> \<not> readOnly t"
  shows "\<exists>t1. GetOrCreateColumnHandle t = (t1, Some (colIndex t))
           \<and> colHandles t1 ! colIndex t = stored_records t
           \<and> t1 = (if namespace_present t then t else t\<lparr>colHandles := colHandles t @ [[]]\<rparr>)"
proof (cases "namespace_present t")
  case True
  then show ?thesis by (simp add: GetOrCreateColumnHandle_present stored_records_def)
next
  case False
  with h have rw: "\<not> readOnly t" by simp
  show ?thesis
    using False by (simp add: GetOrCreateColumnHandle_absent_writable [OF rw False]
        stored_records_def absent_index [OF ok False])
qed

lemma ExportValues_fits:
  assumes w: "dump_writable fs" and ok: "table_ok t" and h: "namespace_present t \<or> \<not> readOnly t"
    and fits: "list_all record_fits (stored_records t)"
  shows "snd (ExportValues t fs) =
     (Returned OK,
      fs\<lparr>dump_file := Some (export_header @ concat (map frame (cf_iterate (stored_records t))))\<rparr>)"
proof -
  from export_handle [OF ok h] obtain t1 where
    g: "GetOrCreateColumnHandle t = (t1, Some (colIndex t))"
    and c: "colHandles t1 ! colIndex t = stored_records t" by blast
  have "export_loop (cf_iterate (stored_records t)) export_header =
      (Returned OK, export_header @ concat (map frame (cf_iterate (stored_records t))))"
    by (rule export_loop_fits) (simp add: list_all_cf_iterate fits)
  then show ?thesis using w by (simp add: ExportValues_def g c)
qed

lemma ExportValues_exact:
  assumes w: "dump_writable fs" and ok: "table_ok t" and h: "namespace_present t \<or> \<not> readOnly t"
  shows "snd (ExportValues t fs) =
     (fst (export_result (cf_iterate (stored_records t))),
      fs\<lparr>dump_file :=
           Some (export_header @ snd (export_result (cf_iterate (stored_records t))))\<rparr>)"
proof -
  from export_handle [OF ok h] obtain t1 where
    g: "GetOrCreateColumnHandle t = (t1, Some (colIndex t))"
    and c: "colHandles t1 ! colIndex t = stored_records t" by blast
  show ?thesis
    using w by (simp add: ExportValues_def g c export_loop_exact)
qed

lemma ExportValues_unwritable:
  assumes "\<not> dump_writable fs"
  shows "ExportValues t fs = (t, Returned UNKNOWN, fs)"
  using assms by (simp add: ExportValues_def)

lemma ExportValues_null_handle:
  assumes "dump_writable fs" and "readOnly t" and "\<not> namespace_present t"
  shows "ExportValues t fs = (t, Undefined, fs\<lparr>dump_file := Some export_header\<rparr>)"
  using assms
  by (simp add: ExportValues_def GetOrCreateColumnHandle_absent_readOnly)

lemma ExportValues_not_denied:
  "fst (snd (ExportValues t fs)) \<noteq> Returned PERMISSION_DENIED"
proof -
  have "fst (export_loop it out) \<noteq> Returned PERMISSION_DENIED" for it out
    using export_loop_outcomes [of it out] by auto
  then show ?thesis
    by (auto simp: ExportValues_def Let_def split: prod.splits option.splits)
       (metis fst_conv)
qed

subsection \<open>The import loop ends in \<open>OUT_OF_RANGE\<close>\<close>

text \<open>
  A record that was read leaves the stream good, so the loop condition \<open>!file.eof()\<close>
  holds again; the loop can only end in a failed read.
\<close>

lemma read_record_good:
  "read_record out = Some (k, v, out') \<Longrightarrow> \<not> eofbit out' \<and> \<not> failbit out'"
  by (auto simp: read_record_def ifstream_read_def Let_def split: if_splits prod.splits)

lemma import_loop_out_of_range:
  "\<not> eofbit out \<Longrightarrow> snd (import_loop t h out batch) = Returned OUT_OF_RANGE"
proof (induction t h out batch rule: import_loop.induct)
  case (1 t h out batch)
  show ?case
  proof (cases "read_record out")
    case None
    with "1.prems" show ?thesis by (simp add: import_loop.simps [of t h out batch])
  next
    case (Some r)
    obtain k v out' where r: "r = (k, v, out')" by (cases r)
    from Some r read_record_good have good: "\<not> eofbit out'" by blast
    show ?thesis
    proof (cases "length (batch @ [BPut h k v]) mod RDB_BATCH_MODE_MAX_QUERY_SIZE = 0")
      case True
      from "1.IH"(1) [OF "1.prems" Some r [symmetric] refl refl True good] "1.prems" Some r True
      show ?thesis by (simp add: import_loop.simps [of t h out batch] Let_def)
    next
      case False
      from "1.IH"(2) [OF "1.prems" Some r [symmetric] refl refl False good] "1.prems" Some r False
      show ?thesis by (simp add: import_loop.simps [of t h out batch] Let_def)
    qed
  qed
qed

subsection \<open>Evaluating the model on concrete inputs\<close>

lemmas ex_defs = key7_def key8_def key9_def ex_table_def ex_table_default_def ex_keys1_def ex_keys2_def ex_values1_def
  ex_out1_def ex_out2_def ex_default_def ex_default_empty_def ex_fs_def

lemma chunks_numeral:
  "chunks sz (numeral n) bs = take sz bs # chunks sz (pred_numeral n) (drop sz bs)"
  by (simp add: numeral_eq_Suc)

lemmas find_defs = Find_def GetOrCreateColumnHandle_def find_bulk_def db_MultiGet_def cf_get_def
  find_slot_def copyToTensor_def copy_default_def write_at_def NumElements_def
  RDB_BATCH_MODE_MIN_QUERY_SIZE_def assignSlice_key_def assignSlice_ptr_def bytes_of_ptr_def
  db_Get_def Let_def chunks_numeral

lemma magic_bytes: "u32_of_bytes [0x54, 0x46, 0x4B, 0x56] = RDB_EXPORT_FILE_MAGIC"
  by (simp add: u32_of_bytes_def RDB_EXPORT_FILE_MAGIC_def)

lemma version_bytes: "u32_of_bytes [1, 0, 0, 0] = RDB_EXPORT_FILE_VERSION"
  by (simp add: u32_of_bytes_def RDB_EXPORT_FILE_VERSION_def)

lemma header_accepted_export_header: "header_accepted (export_header @ bs)"
  by (simp add: header_accepted_def export_header_bytes magic_bytes version_bytes)

lemma ImportValues_never_OK: "snd (ImportValues t fs) \<noteq> Returned OK"
proof -
  have rd: "\<not> eofbit f'" if "ifstream_read n f = (bs, f')" and "\<not> failbit f'" for n f bs f'
    using that by (auto simp: ifstream_read_def split: if_splits)
  have loop: "snd (import_loop t' h f b) \<noteq> Returned OK" if "\<not> eofbit f" for t' h f b
    using import_loop_out_of_range [OF that, of t' h b] by simp
  show ?thesis
    using rd loop
    by (auto simp: ImportValues_def Let_def split: prod.splits option.splits if_splits)
qed

lemma import_loop_end:
  assumes "rest f = []" and "\<not> eofbit f" and "\<not> failbit f"
  shows "import_loop t h f batch = (t, Returned OUT_OF_RANGE)"
proof -
  from assms have "read_record f = None"
    by (simp add: read_record_def ifstream_read_def)
  with assms show ?thesis by (simp add: import_loop.simps [of t h f batch])
qed

lemma import_loop_step:
  assumes "\<not> eofbit f" and "read_record f = Some (k, v, f')"
    and "length (batch @ [BPut h k v]) mod RDB_BATCH_MODE_MAX_QUERY_SIZE \<noteq> 0"
  shows "import_loop t h f batch = import_loop t h f' (batch @ [BPut h k v])"
  using assms by (simp add: import_loop.simps [of t h f batch] Let_def)

subsection \<open>\<open>Find\<close> of a single key on an existing namespace\<close>

lemma Find_present_point:
  assumes present: "namespace_present t" and pre: "find_preconditions t keys values dv"
    and one: "dim0 keys = 1"
    and dec: "list_all (decodable (value_dtype t) (NumElements values div dim0 values)) (stored_records t)"
  shows "fst (snd (Find t keys values dv)) = Returned OK"
proof -
  let ?vpd = "NumElements values div dim0 values"
  let ?k = "assignSlice_ptr (data keys)"
  note vpd = find_preconditions_vpd [OF pre]
  from pre have basics: "dtype keys = key_dtype t" "dtype values = value_dtype t"
    "dtype dv = value_dtype t" "dim0 keys = dim0 values" "0 < dim0 values"
    "NumElements dv mod ?vpd = 0" "0 < length (elems dv)" "length (elems dv) mod ?vpd = 0"
    by (simp_all add: find_preconditions_def NumElements_def)
  have "\<exists>v'. find_slot (value_dtype t) ?vpd (elems dv) 0 (db_Get t (colIndex t) ?k) (elems values) = Inr v'"
  proof (cases "map_of (stored_records t) ?k")
    case None
    have "copy_default (elems dv) (0 * ?vpd) ?vpd (elems values) =
        Inr (write_at (elems values) (0 * ?vpd) (default_tile (elems dv) ?vpd 0))"
      by (rule copy_default_tile [OF basics(7) vpd(1) basics(8)])
    with None present show ?thesis
      by (simp add: find_slot_def db_Get_def cf_get_def stored_records_def)
  next
    case (Some v)
    then have "(?k, v) \<in> set (stored_records t)" by (rule map_of_SomeD)
    with dec have "decodable (value_dtype t) ?vpd (?k, v)" by (simp add: list_all_iff)
    then obtain xs where "copyToTensor (value_dtype t) v ?vpd = Inr xs"
      by (auto simp: decodable_def split: sum.splits)
    with Some present show ?thesis
      by (simp add: find_slot_def db_Get_def cf_get_def stored_records_def)
  qed
  then obtain v' where "find_slot (value_dtype t) ?vpd (elems dv) 0 (db_Get t (colIndex t) ?k) (elems values) = Inr v'" ..
  then have loop: "find_point_loop t (Some (colIndex t)) ?vpd (elems dv) (Suc 0) (data keys) 0
      (elems values) = (Returned OK, v')"
    by (simp add: Let_def)
  from one basics(4) have n1: "dim0 keys = Suc 0" "dim0 values = Suc 0" by simp_all
  show ?thesis
    using loop basics(1-3,6) vpd(1)
    by (simp add: Find_def GetOrCreateColumnHandle_present [OF present] Let_def
        RDB_BATCH_MODE_MIN_QUERY_SIZE_def n1)
qed

lemma find_point_loop_numeral:
  "find_point_loop t colHandle valuesPerDim0 d (numeral n) k vOffset v =
     find_point_loop t colHandle valuesPerDim0 d (Suc (pred_numeral n)) k vOffset v"
  by (simp add: numeral_eq_Suc)

subsection \<open>Importing a well-formed file\<close>

text \<open>
  A framed record is read back as it was written. On a file of \<open>n\<close> framed records the
  loop writes the batches of 128 and returns \<open>OUT_OF_RANGE\<close> with the rest unwritten.
\<close>

lemma u32_roundtrip: "u32_of_bytes (bytes_of_u32 w) = w"
proof (rule bit_word_eqI)
  fix n :: nat
  assume "n < LENGTH(32)"
  then have n: "n < 32" by simp
  consider "n < 8" | "8 \<le> n" "n < 16" | "16 \<le> n" "n < 24" | "24 \<le> n" "n < 32"
    using n by linarith
  then show "bit (u32_of_bytes (bytes_of_u32 w)) n = bit w n"
    by cases (auto simp: u32_of_bytes_def bytes_of_u32_def bit_simps)
qed

lemma length_bytes_of_u32: "length (bytes_of_u32 w) = 4"
  by (simp add: bytes_of_u32_def)

lemma read_record_frame:
  assumes "record_fits (k, v)"
  shows "read_record \<lparr>rest = frame (k, v) @ tl0, eofbit = False, failbit = False\<rparr> =
           Some (k, v, \<lparr>rest = tl0, eofbit = False, failbit = False\<rparr>)"
proof -
  from assms have k: "length k \<le> 255" and v: "length v \<le> 2 ^ 32 - 1"
    by (simp_all add: record_fits_def)
  let ?ks = "of_nat (length k) :: 8 word"
  let ?vs = "of_nat (length v) :: 32 word"
  let ?f0 = "\<lparr>rest = frame (k, v) @ tl0, eofbit = False, failbit = False\<rparr>"
  let ?f1 = "\<lparr>rest = k @ bytes_of_u32 ?vs @ v @ tl0, eofbit = False, failbit = False\<rparr>"
  let ?f2 = "\<lparr>rest = bytes_of_u32 ?vs @ v @ tl0, eofbit = False, failbit = False\<rparr>"
  let ?f3 = "\<lparr>rest = v @ tl0, eofbit = False, failbit = False\<rparr>"
  let ?f4 = "\<lparr>rest = tl0, eofbit = False, failbit = False\<rparr>"
  have r1: "ifstream_read 1 ?f0 = ([?ks], ?f1)"
    by (simp add: ifstream_read_def frame_def)
  have r2: "ifstream_read (length k) ?f1 = (k, ?f2)"
    by (simp add: ifstream_read_def)
  have r3: "ifstream_read 4 ?f2 = (bytes_of_u32 ?vs, ?f3)"
    by (simp add: ifstream_read_def length_bytes_of_u32)
  have r4: "ifstream_read (length v) ?f3 = (v, ?f4)"
    by (simp add: ifstream_read_def)
  show ?thesis
    by (simp only: read_record_def r1 Let_def prod.case list.sel unat_key_size [OF k])
       (simp add: r2 r3 r4 u32_roundtrip unat_value_size [OF v])
qed

lemma db_Write_append: "db_Write t (a @ b) = db_Write (db_Write t a) b"
proof (induction a arbitrary: t)
  case Nil
  show ?case by simp
next
  case (Cons op a)
  then show ?case by (cases op) simp_all
qed

lemma import_loop_well_formed:
  assumes "list_all record_fits recs" and "length batch < RDB_BATCH_MODE_MAX_QUERY_SIZE"
  shows "import_loop t h \<lparr>rest = concat (map frame recs), eofbit = False, failbit = False\<rparr> batch =
     (db_Write t
        (take ((length batch + length recs) div RDB_BATCH_MODE_MAX_QUERY_SIZE
                 * RDB_BATCH_MODE_MAX_QUERY_SIZE)
           (batch @ puts h recs)),
      Returned OUT_OF_RANGE)"
  using assms
proof (induction recs arbitrary: t batch)
  case Nil
  then show ?case by (simp add: import_loop_end puts_def)
next
  case (Cons r recs)
  obtain k v where r: "r = (k, v)" by (cases r)
  let ?M = RDB_BATCH_MODE_MAX_QUERY_SIZE
  let ?f = "\<lparr>rest = frame (k, v) @ concat (map frame recs), eofbit = False, failbit = False\<rparr>"
  have s: "concat (map frame (r # recs)) = frame (k, v) @ concat (map frame recs)"
    by (simp add: r)
  let ?f' = "\<lparr>rest = concat (map frame recs), eofbit = False, failbit = False\<rparr>"
  let ?b1 = "batch @ [BPut h k v]"
  from Cons.prems r have fits: "record_fits (k, v)" and rest: "list_all record_fits recs" by simp_all
  have rr: "read_record ?f = Some (k, v, ?f')"
    by (rule read_record_frame [OF fits])
  have M: "?M = 128" by (simp add: RDB_BATCH_MODE_MAX_QUERY_SIZE_def)
  have app: "batch @ puts h (r # recs) = ?b1 @ puts h recs" by (simp add: puts_def r)
  show ?case
  proof (cases "length ?b1 mod ?M = 0")
    case True
    have full: "length ?b1 = ?M"
    proof (rule ccontr)
      assume "length ?b1 \<noteq> ?M"
      with Cons.prems(2) have "length ?b1 < ?M" by simp
      then have "length ?b1 mod ?M = length ?b1" by (rule mod_less)
      with True show False by simp
    qed
    have "import_loop t h ?f batch = import_loop (db_Write t ?b1) h ?f' []"
      by (subst import_loop.simps) (use rr True in \<open>simp add: Let_def\<close>)
    also have "\<dots> = (db_Write (db_Write t ?b1)
        (take ((length ([] :: batch_op list) + length recs) div ?M * ?M) ([] @ puts h recs)),
        Returned OUT_OF_RANGE)"
      by (rule Cons.IH [OF rest]) (simp add: M)
    also have "db_Write (db_Write t ?b1)
        (take ((length ([] :: batch_op list) + length recs) div ?M * ?M) ([] @ puts h recs)) =
      db_Write t (take ((length batch + length (r # recs)) div ?M * ?M) (batch @ puts h (r # recs)))"
    proof -
      have n: "(length batch + length (r # recs)) div ?M * ?M = ?M + length recs div ?M * ?M"
      proof -
        have "(128 + length recs) div 128 = Suc (length recs div 128)" by simp
        with full show ?thesis by (simp add: M)
      qed
      have t: "take (length a + m) (a @ b) = a @ take m b" for a b :: "batch_op list" and m
        by simp
      have "take (?M + length recs div ?M * ?M) (?b1 @ puts h recs) =
          ?b1 @ take (length recs div ?M * ?M) (puts h recs)"
        using t [of ?b1 "length recs div ?M * ?M" "puts h recs"] by (simp only: full)
      then show ?thesis by (simp only: n app db_Write_append) simp
    qed
    finally show ?thesis unfolding s .
  next
    case False
    have small: "length ?b1 < ?M"
    proof (rule ccontr)
      assume "\<not> length ?b1 < ?M"
      with Cons.prems(2) have "length ?b1 = ?M" by simp
      with False show False by simp
    qed
    have "import_loop t h ?f batch = import_loop t h ?f' ?b1"
      by (subst import_loop.simps) (use rr False in \<open>simp add: Let_def\<close>)
    also have "\<dots> = (db_Write t (take ((length ?b1 + length recs) div ?M * ?M) (?b1 @ puts h recs)),
        Returned OUT_OF_RANGE)"
      by (rule Cons.IH [OF rest small])
    finally show ?thesis unfolding s by (simp add: app)
  qed
qed

lemma Clear_writable:
  assumes "\<not> readOnly t" and "\<not> (namespace_present t \<and> colIndex t = 0)"
  shows "snd (Clear t) = Returned OK" and "\<not> namespace_present (fst (Clear t))"
    and "readOnly (fst (Clear t)) = readOnly t"
  using assms by (auto simp add: Clear_def Let_def namespace_present_def db_DropColumnFamily_def)

lemma ImportValues_accepted:
  assumes rw: "\<not> readOnly t" and nd: "\<not> (namespace_present t \<and> colIndex t = 0)"
    and f: "dump_file fs = Some contents"
    and h: "header_accepted contents"
  shows "ImportValues t fs =
     import_loop ((fst (Clear t))\<lparr>colHandles := colHandles (fst (Clear t)) @ [[]]\<rparr>)
       (colIndex (fst (Clear t)))
       \<lparr>rest = drop 8 contents, eofbit = False, failbit = False\<rparr> []"
proof -
  obtain tc where c: "Clear t = (tc, Returned OK)"
    using Clear_writable(1) [OF rw nd] by (cases "Clear t") simp
  from Clear_writable(2,3) [OF rw nd] c have ab: "\<not> namespace_present tc" and rw': "\<not> readOnly tc"
    using rw by simp_all
  from h have len: "8 \<le> length contents" by (simp add: header_accepted_def)
  show ?thesis
    using h rw'
    by (simp add: ImportValues_def c f read_header [OF len] header_accepted_def
        GetOrCreateColumnHandle_absent_writable [OF rw' ab])
qed

lemma ImportValues_well_formed:
  assumes rw: "\<not> readOnly t" and nd: "\<not> (namespace_present t \<and> colIndex t = 0)"
    and f: "dump_file fs = Some (export_header @ concat (map frame recs))"
    and fits: "list_all record_fits recs"
  shows "ImportValues t fs =
     (db_Write ((fst (Clear t))\<lparr>colHandles := colHandles (fst (Clear t)) @ [[]]\<rparr>)
        (take (length recs div RDB_BATCH_MODE_MAX_QUERY_SIZE * RDB_BATCH_MODE_MAX_QUERY_SIZE)
           (puts (colIndex (fst (Clear t))) recs)),
      Returned OUT_OF_RANGE)"
proof -
  have d: "drop 8 (export_header @ concat (map frame recs)) = concat (map frame recs)"
    by (simp add: export_header_bytes)
  have z: "length ([] :: batch_op list) < RDB_BATCH_MODE_MAX_QUERY_SIZE"
    by (simp add: RDB_BATCH_MODE_MAX_QUERY_SIZE_def)
  show ?thesis
    unfolding ImportValues_accepted [OF rw nd f header_accepted_export_header] d
    using import_loop_well_formed [OF fits z] by simp
qed

subsection \<open>The two paths of \<open>Insert\<close> and of \<open>Remove\<close>\<close>

text \<open>
  When no value fails to encode, the puts of the point path and the one write of the
  batch leave the same store; so do the deletes of the two paths of \<open>Remove\<close>.
\<close>

lemma db_Put_dtypes [simp]:
  "key_dtype (db_Put t h k v) = key_dtype t" "value_dtype (db_Put t h k v) = value_dtype t"
  by (simp_all add: db_Put_def)

lemma db_Delete_dtypes [simp]:
  "key_dtype (db_Delete t h k) = key_dtype t"
  by (simp add: db_Delete_def)

lemma insert_paths_agree:
  "insert_batch_loop (key_dtype t) (value_dtype t) h vpd n k v batch = Inr batch' \<Longrightarrow>
     insert_point_loop (db_Write t batch) h vpd n k v = (db_Write t batch', Returned OK)"
proof (induction n arbitrary: k v batch)
  case 0
  then show ?case by simp
next
  case (Suc n)
  have dt: "key_dtype (db_Write t b) = key_dtype t \<and> value_dtype (db_Write t b) = value_dtype t" for b
  proof (induction b arbitrary: t)
    case Nil
    show ?case by simp
  next
    case (Cons op b)
    show ?case by (cases op) (simp_all add: Cons.IH db_Delete_def)
  qed
  show ?case
  proof (cases "assignSlice_values (value_dtype t) (take vpd v)")
    case (Inl msg)
    with Suc.prems show ?thesis by simp
  next
    case (Inr vSlice)
    with Suc.prems have "insert_batch_loop (key_dtype t) (value_dtype t) h vpd n
        (k + of_nat (sizeof (key_dtype t))) (drop vpd v) (batch @ [BPut h (assignSlice_ptr k) vSlice])
        = Inr batch'"
      by simp
    from Suc.IH [OF this] Inr show ?thesis
      by (simp add: dt db_Write_append)
  qed
qed

lemma remove_paths_agree:
  "remove_point_loop (db_Write t batch) h n k =
     db_Write t (remove_batch_loop (key_dtype t) h n k batch)"
proof (induction n arbitrary: k batch)
  case 0
  show ?case by simp
next
  case (Suc n)
  have dt: "key_dtype (db_Write t b) = key_dtype t" for b
  proof (induction b arbitrary: t)
    case Nil
    show ?case by simp
  next
    case (Cons op b)
    show ?case by (cases op) (simp_all add: Cons.IH)
  qed
  from Suc.IH [of "batch @ [BDelete h (assignSlice_ptr k)]" "k + of_nat (sizeof (key_dtype t))"]
  show ?case by (simp add: dt db_Write_append)
qed

subsection \<open>Export followed by import\<close>

lemma cf_put_fresh: "k \<notin> fst ` set cf \<Longrightarrow> cf_put k v cf = cf @ [(k, v)]"
  by (induction cf) auto

lemma db_Write_puts:
  assumes "h < length (colHandles t)" and "distinct (map fst recs)"
    and "fst ` set recs \<inter> fst ` set (colHandles t ! h) = {}"
  shows "db_Write t (puts h recs) = t\<lparr>colHandles := (colHandles t)[h := colHandles t ! h @ recs]\<rparr>"
  using assms
proof (induction recs arbitrary: t)
  case Nil
  then show ?case by (simp add: puts_def)
next
  case (Cons r recs)
  let ?t1 = "db_Put t h (fst r) (snd r)"
  from Cons.prems(3) have fresh: "fst r \<notin> fst ` set (colHandles t ! h)" by auto
  have cf1: "colHandles ?t1 ! h = colHandles t ! h @ [r]"
    using Cons.prems(1) by (simp add: db_Put_def cf_put_fresh [OF fresh])
  have len: "h < length (colHandles ?t1)" using Cons.prems(1) by (simp add: db_Put_def)
  have d: "distinct (map fst recs)" using Cons.prems(2) by simp
  have disj: "fst ` set recs \<inter> fst ` set (colHandles ?t1 ! h) = {}"
    using Cons.prems(2,3) by (auto simp: cf1)
  have "db_Write t (puts h (r # recs)) = db_Write ?t1 (puts h recs)"
    by (simp add: puts_def)
  also have "\<dots> = ?t1\<lparr>colHandles := (colHandles ?t1)[h := colHandles ?t1 ! h @ recs]\<rparr>"
    by (rule Cons.IH [OF len d disj])
  also have "\<dots> = t\<lparr>colHandles := (colHandles t)[h := colHandles t ! h @ r # recs]\<rparr>"
    using Cons.prems(1) by (simp add: db_Put_def cf_put_fresh [OF fresh])
  finally show ?case .
qed

lemma puts_take: "take n (puts h recs) = puts h (take n recs)"
  by (simp add: puts_def take_map)

lemma ExportValues_fst:
  assumes "namespace_present t \<or> \<not> readOnly t" and "table_ok t" and "dump_writable fs"
  shows "fst (ExportValues t fs) = (if namespace_present t then t else t\<lparr>colHandles := colHandles t @ [[]]\<rparr>)"
proof -
  from export_handle [OF assms(2,1)] obtain t1 where
    g: "GetOrCreateColumnHandle t = (t1, Some (colIndex t))"
    and t1: "t1 = (if namespace_present t then t else t\<lparr>colHandles := colHandles t @ [[]]\<rparr>)"
    by blast
  show ?thesis using assms(3) by (simp add: ExportValues_def g t1 split: prod.splits)
qed

lemma Clear_after_export:
  assumes rw: "\<not> readOnly t" and ok: "table_ok t" and pos: "0 < colIndex t"
  shows "fst (Clear (if namespace_present t then t else t\<lparr>colHandles := colHandles t @ [[]]\<rparr>)) =
     t\<lparr>colHandleCache := [],
       colHandles := take (colIndex t) (colHandles t) @ drop (Suc (colIndex t)) (colHandles t),
       colIndex := length (take (colIndex t) (colHandles t) @ drop (Suc (colIndex t)) (colHandles t))\<rparr>"
proof (cases "namespace_present t")
  case True
  with rw pos show ?thesis by (simp add: Clear_writable_present)
next
  case False
  from absent_index [OF ok False] have i: "colIndex t = length (colHandles t)" .
  have p: "namespace_present (t\<lparr>colHandles := colHandles t @ [[]]\<rparr>)"
    by (simp add: namespace_present_def i)
  show ?thesis
    using False rw pos by (simp add: Clear_writable_present [OF _ p] i)
qed

lemma export_then_import:
  assumes rw: "\<not> readOnly t" and ok: "table_ok t" and w: "dump_writable fs"
    and fits: "list_all record_fits (stored_records t)"
    and dist: "distinct (map fst (stored_records t))"
    and pos: "0 < colIndex t"
  shows "fst (snd (ExportValues t fs)) = Returned OK"
    and "snd (ImportValues (fst (ExportValues t fs)) (snd (snd (ExportValues t fs)))) =
           Returned OUT_OF_RANGE"
    and "stored_records (fst (ImportValues (fst (ExportValues t fs)) (snd (snd (ExportValues t fs))))) =
           take (length (stored_records t) div RDB_BATCH_MODE_MAX_QUERY_SIZE
                   * RDB_BATCH_MODE_MAX_QUERY_SIZE)
             (cf_iterate (stored_records t))"
proof -
  let ?M = RDB_BATCH_MODE_MAX_QUERY_SIZE
  let ?recs = "cf_iterate (stored_records t)"
  let ?te = "fst (ExportValues t fs)"
  let ?fs' = "snd (snd (ExportValues t fs))"
  have h: "namespace_present t \<or> \<not> readOnly t" using rw by simp
  note ex = ExportValues_fits [OF w ok h fits]
  show "fst (snd (ExportValues t fs)) = Returned OK" by (simp add: ex)
  have f: "dump_file ?fs' = Some (export_header @ concat (map frame ?recs))"
    by (simp add: ex)
  have te: "?te = (if namespace_present t then t else t\<lparr>colHandles := colHandles t @ [[]]\<rparr>)"
    by (rule ExportValues_fst [OF h ok w])
  have rw': "\<not> readOnly ?te" using rw by (simp add: te)
  have nd: "\<not> (namespace_present ?te \<and> colIndex ?te = 0)" using pos by (simp add: te)
  have fits': "list_all record_fits ?recs" by (simp add: list_all_cf_iterate fits)
  define hs where "hs = take (colIndex t) (colHandles t) @ drop (Suc (colIndex t)) (colHandles t)"
  let ?tc = "t\<lparr>colHandleCache := [], colHandles := hs, colIndex := length hs\<rparr>"
  have tc: "fst (Clear ?te) = ?tc"
    unfolding te hs_def by (rule Clear_after_export [OF rw ok pos])
  let ?t2 = "?tc\<lparr>colHandles := colHandles ?tc @ [[]]\<rparr>"
  define kept where "kept = take (length ?recs div ?M * ?M) ?recs"
  have im: "ImportValues ?te ?fs' = (db_Write ?t2 (puts (length hs) kept), Returned OUT_OF_RANGE)"
    using ImportValues_well_formed [OF rw' nd f fits'] by (simp add: tc puts_take kept_def)
  show "snd (ImportValues ?te ?fs') = Returned OUT_OF_RANGE" by (simp add: im)
  have dk: "distinct (map fst kept)"
  proof -
    from dist have "distinct (map fst ?recs)"
      using cf_iterate_props(4) [OF dist] by (simp add: strict_sorted_iff)
    then show ?thesis by (simp add: kept_def take_map [symmetric] distinct_take)
  qed
  have w2: "db_Write ?t2 (puts (length hs) kept) =
      ?t2\<lparr>colHandles := (colHandles ?t2)[length hs := colHandles ?t2 ! length hs @ kept]\<rparr>"
    by (rule db_Write_puts) (simp_all add: dk)
  have "stored_records (fst (ImportValues ?te ?fs')) = kept"
    unfolding im fst_conv w2 by (simp add: stored_records_def namespace_present_def)
  then show "stored_records (fst (ImportValues ?te ?fs')) =
      take (length (stored_records t) div ?M * ?M) ?recs"
    by (simp add: kept_def cf_iterate_props(3))
qed

text \<open>
  A table on the default column family: the export is as before, the import ends in the
  exception of \<open>Clear\<close> and the store keeps what it had.
\<close>

lemma export_then_import_default:
  assumes rw: "\<not> readOnly t" and ok: "table_ok t" and w: "dump_writable fs"
    and fits: "list_all record_fits (stored_records t)"
    and z: "colIndex t = 0"
  shows "fst (snd (ExportValues t fs)) = Returned OK"
    and "snd (ImportValues (fst (ExportValues t fs)) (snd (snd (ExportValues t fs)))) =
           Thrown ''s.getState()''"
    and "stored_records (fst (ImportValues (fst (ExportValues t fs)) (snd (snd (ExportValues t fs))))) =
           stored_records t"
proof -
  let ?te = "fst (ExportValues t fs)"
  let ?fs' = "snd (snd (ExportValues t fs))"
  have h: "namespace_present t \<or> \<not> readOnly t" using rw by simp
  note ex = ExportValues_fits [OF w ok h fits]
  show "fst (snd (ExportValues t fs)) = Returned OK" by (simp add: ex)
  have te: "?te = (if namespace_present t then t else t\<lparr>colHandles := colHandles t @ [[]]\<rparr>)"
    by (rule ExportValues_fst [OF h ok w])
  have rw': "\<not> readOnly ?te" using rw by (simp add: te)
  have p: "namespace_present ?te" by (simp add: te namespace_present_def z)
  have z': "colIndex ?te = 0" by (simp add: te z)
  note im = ImportValues_default_family [OF rw' p z', of ?fs']
  show "snd (ImportValues ?te ?fs') = Thrown ''s.getState()''" by (simp add: im)
  have "stored_records (?te\<lparr>colHandleCache := []\<rparr>) = stored_records t"
  proof (cases "namespace_present t")
    case True
    then show ?thesis by (simp add: te stored_records_def namespace_present_def)
  next
    case False
    from absent_index [OF ok False] z have "colHandles t = []" by simp
    with False show ?thesis by (simp add: te stored_records_def namespace_present_def z)
  qed
  then show "stored_records (fst (ImportValues ?te ?fs')) = stored_records t" by (simp add: im)
qed

lemma cf_put_idem: "cf_put k v (cf_put k v cf) = cf_put k v cf"
  by (induction cf) auto

lemma db_Put_idem: "db_Put (db_Put t h k v) h k v = db_Put t h k v"
  by (cases "h < length (colHandles t)") (simp_all add: db_Put_def cf_put_idem list_update_beyond)

lemma db_Write_replicate_put:
  "0 < n \<Longrightarrow> db_Write t (replicate n (BPut h k v)) = db_Put t h k v"
proof (induction n arbitrary: t)
  case 0
  then show ?case by simp
next
  case (Suc n)
  show ?case
  proof (cases n)
    case 0
    then show ?thesis by simp
  next
    case (Suc m)
    with Suc.IH [of "db_Put t h k v"] show ?thesis by (simp add: db_Put_idem)
  qed
qed

section \<open>The claims\<close>

subsection \<open>C1: export followed by import\<close>

text \<open>
  Claim C1. Exporting a table and importing the file again leaves the namespace with
  exactly the original records, the records of the final partial write batch included.
  The code does not: after the last record of a well-formed file \<open>eofbit\<close> is not yet
  set, the loop is entered once more, the read of the next key length fails and the
  method returns \<open>OUT_OF_RANGE\<close> before the statement that writes the remaining batch.
  What export followed by import does, for a table that is not read-only whose records
  fit the length fields (one record per key): the export returns \<open>OK\<close>, the import
  returns \<open>OUT_OF_RANGE\<close>, and the namespace is left with the records of the full
  batches only, the first \<open>n div 128 * 128\<close> of its \<open>n\<close> records in key order. On the
  default column family (\<open>colIndex\<close> 0) the import does not get that far: its \<open>Clear\<close>
  throws, and the namespace keeps its records.
\<close>

theorem C1_export_then_import:
  assumes "\<not> readOnly t" and "table_ok t" and "dump_writable fs"
    and "list_all record_fits (stored_records t)"
    and "distinct (map fst (stored_records t))"
  shows "fst (snd (ExportValues t fs)) = Returned OK
    \<and> snd (ImportValues (fst (ExportValues t fs)) (snd (snd (ExportValues t fs)))) =
         (if colIndex t = 0 then Thrown ''s.getState()'' else Returned OUT_OF_RANGE)
    \<and> stored_records
         (fst (ImportValues (fst (ExportValues t fs)) (snd (snd (ExportValues t fs))))) =
         (if colIndex t = 0 then stored_records t
          else take (length (stored_records t) div RDB_BATCH_MODE_MAX_QUERY_SIZE
                       * RDB_BATCH_MODE_MAX_QUERY_SIZE)
                 (cf_iterate (stored_records t)))"
proof (cases "colIndex t = 0")
  case True
  from export_then_import_default [OF assms(1-4) True] True show ?thesis by simp
next
  case False
  then have "0 < colIndex t" by simp
  from export_then_import [OF assms this] False show ?thesis by simp
qed

text \<open>
  The namespace of one record: after export and import it is empty. The same record in
  the default column family: the import throws, and the record is still there.
\<close>

theorem C1_export_then_import_witness:
  "\<not> readOnly (ex_table False [[], [(key7, [1, 2, 3])]])
   \<and> table_ok (ex_table False [[], [(key7, [1, 2, 3])]])
   \<and> dump_writable (ex_fs None)
   \<and> stored_records (ex_table False [[], [(key7, [1, 2, 3])]]) = [(key7, [1, 2, 3])]
   \<and> fst (snd (ExportValues (ex_table False [[], [(key7, [1, 2, 3])]]) (ex_fs None))) = Returned OK
   \<and> snd (ImportValues (fst (ExportValues (ex_table False [[], [(key7, [1, 2, 3])]]) (ex_fs None)))
          (snd (snd (ExportValues (ex_table False [[], [(key7, [1, 2, 3])]]) (ex_fs None))))) =
        Returned OUT_OF_RANGE
   \<and> stored_records
        (fst (ImportValues (fst (ExportValues (ex_table False [[], [(key7, [1, 2, 3])]]) (ex_fs None)))
               (snd (snd (ExportValues (ex_table False [[], [(key7, [1, 2, 3])]]) (ex_fs None)))))) = []
   \<and> fst (snd (ExportValues (ex_table_default [[(key7, [1, 2, 3])]]) (ex_fs None))) = Returned OK
   \<and> snd (ImportValues (fst (ExportValues (ex_table_default [[(key7, [1, 2, 3])]]) (ex_fs None)))
          (snd (snd (ExportValues (ex_table_default [[(key7, [1, 2, 3])]]) (ex_fs None))))) =
        Thrown ''s.getState()''
   \<and> stored_records
        (fst (ImportValues (fst (ExportValues (ex_table_default [[(key7, [1, 2, 3])]]) (ex_fs None)))
               (snd (snd (ExportValues (ex_table_default [[(key7, [1, 2, 3])]]) (ex_fs None)))))) =
        [(key7, [1, 2, 3])]"
  using C1_export_then_import [of "ex_table False [[], [(key7, [1, 2, 3])]]" "ex_fs None"]
    C1_export_then_import [of "ex_table_default [[(key7, [1, 2, 3])]]" "ex_fs None"]
  by (simp add: ex_table_def ex_table_default_def ex_fs_def key7_def table_ok_def
      namespace_present_def stored_records_def record_fits_def RDB_BATCH_MODE_MAX_QUERY_SIZE_def)

subsection \<open>C2: read-only tables\<close>

text \<open>
  Claim C2 says that on a read-only table insert, remove, clear and import return
  \<open>PERMISSION_DENIED\<close> whether the namespace exists or not, and that find and export
  succeed. \<open>Clear\<close> tests the flag only inside the branch for an existing column family:
  on a read-only table without a namespace it returns \<open>OK\<close>.
\<close>

theorem C2_clear_read_only_absent:
  "readOnly (ex_table True [[]]) \<and> \<not> namespace_present (ex_table True [[]])
   \<and> Clear (ex_table True [[]]) = (ex_table True [[]], Returned OK)"
  by (simp add: Clear_def ex_defs namespace_present_def)

text \<open>
  Claim C2 as the code has it. On a read-only table: insert and remove with matching
  element types return \<open>PERMISSION_DENIED\<close> in both namespace states and leave the table
  as it was; clear and import return it when the namespace exists; without a namespace
  clear returns \<open>OK\<close> and import returns \<open>NOT_FOUND\<close> for a missing dump file and
  \<open>PERMISSION_DENIED\<close> once the header has been accepted; in each of these cases clear and
  import change one thing, the handle cache, which they empty, and no column family;
  find and export never return \<open>PERMISSION_DENIED\<close>; find
  returns \<open>OK\<close> on acceptable arguments when the namespace is absent, and for a single
  key when it exists and the stored values decode; export returns \<open>OK\<close> when the
  namespace exists, the dump file can be opened and every record fits the length fields.
\<close>

theorem C2_read_only_table:
  assumes ro: "readOnly t"
  shows "(dtype keys = key_dtype t \<and> dtype ivalues = value_dtype t \<longrightarrow>
            Insert t keys ivalues = (t, Returned PERMISSION_DENIED))
    \<and> (dtype keys = key_dtype t \<longrightarrow> Remove t keys = (t, Returned PERMISSION_DENIED))
    \<and> (namespace_present t \<longrightarrow>
            Clear t = (t\<lparr>colHandleCache := []\<rparr>, Returned PERMISSION_DENIED)
            \<and> ImportValues t fs = (t\<lparr>colHandleCache := []\<rparr>, Returned PERMISSION_DENIED))
    \<and> (\<not> namespace_present t \<longrightarrow>
            Clear t = (t\<lparr>colHandleCache := []\<rparr>, Returned OK)
            \<and> (dump_file fs = None \<longrightarrow>
                   ImportValues t fs = (t\<lparr>colHandleCache := []\<rparr>, Returned NOT_FOUND))
            \<and> (\<forall>contents. dump_file fs = Some contents \<and> header_accepted contents \<longrightarrow>
                   ImportValues t fs = (t\<lparr>colHandleCache := []\<rparr>, Returned PERMISSION_DENIED)))
    \<and> fst (snd (Find t keys values dv)) \<noteq> Returned PERMISSION_DENIED
    \<and> fst (snd (ExportValues t fs)) \<noteq> Returned PERMISSION_DENIED
    \<and> (\<not> namespace_present t \<and> find_preconditions t keys values dv \<longrightarrow>
            fst (snd (Find t keys values dv)) = Returned OK)
    \<and> (namespace_present t \<and> find_preconditions t keys values dv \<and> dim0 keys = 1
          \<and> list_all (decodable (value_dtype t) (NumElements values div dim0 values))
                (stored_records t) \<longrightarrow>
            fst (snd (Find t keys values dv)) = Returned OK)
    \<and> (namespace_present t \<and> dump_writable fs \<and> list_all record_fits (stored_records t) \<longrightarrow>
            fst (snd (ExportValues t fs)) = Returned OK)"
proof (intro conjI impI allI)
  show "Insert t keys ivalues = (t, Returned PERMISSION_DENIED)"
    if "dtype keys = key_dtype t \<and> dtype ivalues = value_dtype t"
    using ro that by (simp add: Insert_readOnly)
  show "Remove t keys = (t, Returned PERMISSION_DENIED)" if "dtype keys = key_dtype t"
    using ro that by (rule Remove_readOnly)
  show "Clear t = (t\<lparr>colHandleCache := []\<rparr>, Returned PERMISSION_DENIED)"
    if "namespace_present t"
    using ro that by (rule Clear_readOnly_present)
  show "ImportValues t fs = (t\<lparr>colHandleCache := []\<rparr>, Returned PERMISSION_DENIED)"
    if "namespace_present t"
    using ro that by (rule ImportValues_readOnly_present)
  show "Clear t = (t\<lparr>colHandleCache := []\<rparr>, Returned OK)" if "\<not> namespace_present t"
    using that by (rule Clear_absent)
  show "ImportValues t fs = (t\<lparr>colHandleCache := []\<rparr>, Returned NOT_FOUND)"
    if "\<not> namespace_present t" and "dump_file fs = None"
    using that by (rule ImportValues_no_file)
  show "ImportValues t fs = (t\<lparr>colHandleCache := []\<rparr>, Returned PERMISSION_DENIED)"
    if "\<not> namespace_present t" and "dump_file fs = Some contents \<and> header_accepted contents"
    for contents
    using ro that by (simp add: ImportValues_readOnly_absent)
  show "fst (snd (Find t keys values dv)) \<noteq> Returned PERMISSION_DENIED"
    by (rule Find_not_denied)
  show "fst (snd (ExportValues t fs)) \<noteq> Returned PERMISSION_DENIED"
    by (rule ExportValues_not_denied)
  show "fst (snd (Find t keys values dv)) = Returned OK"
    if "\<not> namespace_present t \<and> find_preconditions t keys values dv"
    using ro that by (simp add: Find_absent_readOnly)
  show "fst (snd (Find t keys values dv)) = Returned OK"
    if "namespace_present t \<and> find_preconditions t keys values dv \<and> dim0 keys = 1
          \<and> list_all (decodable (value_dtype t) (NumElements values div dim0 values))
                (stored_records t)"
    using that by (simp add: Find_present_point)
  show "fst (snd (ExportValues t fs)) = Returned OK"
    if "namespace_present t \<and> dump_writable fs \<and> list_all record_fits (stored_records t)"
  proof -
    from that have p: "namespace_present t" and w: "dump_writable fs"
      and f: "list_all record_fits (stored_records t)" by simp_all
    from p have ok: "table_ok t" by (simp add: table_ok_def namespace_present_def)
    from p have h: "namespace_present t \<or> \<not> readOnly t" by simp
    show ?thesis by (simp add: ExportValues_fits [OF w ok h f])
  qed
qed

theorem C2_read_only_table_witness:
  "readOnly (ex_table True [[], [(key7, [1, 2, 3])]])
   \<and> namespace_present (ex_table True [[], [(key7, [1, 2, 3])]])
   \<and> Insert (ex_table True [[], [(key7, [1, 2, 3])]]) ex_keys1 ex_values1 =
        (ex_table True [[], [(key7, [1, 2, 3])]], Returned PERMISSION_DENIED)
   \<and> Remove (ex_table True [[], [(key7, [1, 2, 3])]]) ex_keys1 =
        (ex_table True [[], [(key7, [1, 2, 3])]], Returned PERMISSION_DENIED)
   \<and> Clear (ex_table True [[], [(key7, [1, 2, 3])]]) =
        (ex_table True [[], [(key7, [1, 2, 3])]], Returned PERMISSION_DENIED)
   \<and> ImportValues (ex_table True [[], [(key7, [1, 2, 3])]]) (ex_fs None) =
        (ex_table True [[], [(key7, [1, 2, 3])]], Returned PERMISSION_DENIED)
   \<and> fst (snd (Find (ex_table True [[], [(key7, [1, 2, 3])]]) ex_keys1 ex_out1 ex_default)) =
        Returned OK
   \<and> fst (snd (ExportValues (ex_table True [[], [(key7, [1, 2, 3])]]) (ex_fs None))) = Returned OK
   \<and> readOnly (ex_table True [[]]) \<and> \<not> namespace_present (ex_table True [[]])
   \<and> Clear (ex_table True [[]]) = (ex_table True [[]], Returned OK)
   \<and> Clear ((ex_table True [[]])\<lparr>colHandleCache := [None, None]\<rparr>) =
        (ex_table True [[]], Returned OK)
   \<and> ImportValues ((ex_table True [[]])\<lparr>colHandleCache := [None, None]\<rparr>) (ex_fs None) =
        (ex_table True [[]], Returned NOT_FOUND)
   \<and> ImportValues (ex_table True [[]]) (ex_fs (Some [0x54, 0x46, 0x4B, 0x56, 1, 0, 0, 0])) =
        (ex_table True [[]], Returned PERMISSION_DENIED)
   \<and> fst (snd (Find (ex_table True [[]]) ex_keys2 ex_out2 ex_default)) = Returned OK"
  using C2_read_only_table [of "ex_table True [[], [(key7, [1, 2, 3])]]" ex_keys1 ex_values1
      "ex_fs None" ex_out1 ex_default]
    C2_read_only_table [of "ex_table True [[]]" ex_keys2 ex_values1 "ex_fs None" ex_out2 ex_default]
    C2_read_only_table [of "(ex_table True [[]])\<lparr>colHandleCache := [None, None]\<rparr>"
      ex_keys2 ex_values1 "ex_fs None" ex_out2 ex_default]
    C2_read_only_table [of "ex_table True [[]]" ex_keys2 ex_values1
      "ex_fs (Some [0x54, 0x46, 0x4B, 0x56, 1, 0, 0, 0])" ex_out2 ex_default]
  by (simp add: ex_defs namespace_present_def find_preconditions_def NumElements_def
      stored_records_def decodable_def copyToTensor_def record_fits_def header_accepted_def
      magic_bytes version_bytes)

subsection \<open>C3: the point path and the bulk path\<close>

text \<open>
  Claim C3. A request of one key takes the point path, a request of two keys the bulk
  path, and both give the same results. They do not for \<open>Find\<close>. The point path makes
  its key slice from the cursor into the key buffer, as \<open>Insert\<close> does, and reads the
  table's own column family; the bulk path makes its key slices from the keys and hands
  the multi-get the vector of all open handles, so key \<open>i\<close> is looked up in column
  family \<open>i\<close> of the database. Key 7 is inserted from a buffer at \<open>0x1000\<close>: the
  one-key lookup from the same buffer returns the inserted row, the two-key lookup that
  starts with the same key returns the default row for it; and run on the same two keys,
  the loop of the point path and the bulk path differ.
\<close>

theorem C3_find_paths_disagree:
  "Insert (ex_table False [[]]) ex_keys1 ex_values1 =
     (ex_table False [[], [([0, 0x10, 0, 0, 0, 0, 0, 0], [1, 2, 3])]], Returned OK)
   \<and> dim0 ex_keys1 < RDB_BATCH_MODE_MIN_QUERY_SIZE
   \<and> \<not> dim0 ex_keys2 < RDB_BATCH_MODE_MIN_QUERY_SIZE
   \<and> snd (Find (ex_table False [[], [([0, 0x10, 0, 0, 0, 0, 0, 0], [1, 2, 3])]])
          ex_keys1 ex_out1 ex_default) = (Returned OK, [[1], [2], [3]])
   \<and> snd (Find (ex_table False [[], [([0, 0x10, 0, 0, 0, 0, 0, 0], [1, 2, 3])]])
          ex_keys2 ex_out2 ex_default) = (Returned OK, [[9], [9], [9], [9], [9], [9]])
   \<and> find_point_loop (ex_table False [[], [([0, 0x10, 0, 0, 0, 0, 0, 0], [1, 2, 3])]])
          (Some 1) 3 (elems ex_default) 2 (data ex_keys2) 0 (elems ex_out2) =
        (Returned OK, [[1], [2], [3], [9], [9], [9]])
   \<and> snd (find_bulk (ex_table False [[], [([0, 0x10, 0, 0, 0, 0, 0, 0], [1, 2, 3])]])
          (Some 1) 3 (elems ex_default) 2 (elems ex_keys2) (elems ex_out2)) =
        (Returned OK, [[9], [9], [9], [9], [9], [9]])"
proof -
  have "Insert (ex_table False [[]]) ex_keys1 ex_values1 =
     (ex_table False [[], [([0, 0x10, 0, 0, 0, 0, 0, 0], [1, 2, 3])]], Returned OK)"
    by (simp add: Insert_def GetOrCreateColumnHandle_def ex_defs NumElements_def Let_def
        RDB_BATCH_MODE_MIN_QUERY_SIZE_def assignSlice_values_def assignSlice_ptr_def
        bytes_of_ptr_def db_Put_def)
  moreover have "snd (Find (ex_table False [[], [([0, 0x10, 0, 0, 0, 0, 0, 0], [1, 2, 3])]])
          ex_keys1 ex_out1 ex_default) = (Returned OK, [[1], [2], [3]])"
    by (simp add: find_defs ex_defs)
  moreover have "snd (Find (ex_table False [[], [([0, 0x10, 0, 0, 0, 0, 0, 0], [1, 2, 3])]])
          ex_keys2 ex_out2 ex_default) = (Returned OK, [[9], [9], [9], [9], [9], [9]])"
    by (simp add: find_defs ex_defs)
  moreover have "find_point_loop (ex_table False [[], [([0, 0x10, 0, 0, 0, 0, 0, 0], [1, 2, 3])]])
          (Some 1) 3 (elems ex_default) 2 (data ex_keys2) 0 (elems ex_out2) =
        (Returned OK, [[1], [2], [3], [9], [9], [9]])"
    by (simp add: find_defs find_point_loop_numeral ex_defs)
  moreover have "snd (find_bulk (ex_table False [[], [([0, 0x10, 0, 0, 0, 0, 0, 0], [1, 2, 3])]])
          (Some 1) 3 (elems ex_default) 2 (elems ex_keys2) (elems ex_out2)) =
        (Returned OK, [[9], [9], [9], [9], [9], [9]])"
    by (simp add: find_defs ex_defs)
  ultimately show ?thesis
    by (simp add: RDB_BATCH_MODE_MIN_QUERY_SIZE_def ex_keys1_def ex_keys2_def)
qed

subsection \<open>C4: default values for absent keys\<close>

text \<open>
  Claim C4. When the preconditions of a find hold, every key absent from the namespace
  gets its output row from the default tensor, \<open>valuesPerKey\<close> elements from position
  (row offset mod default length) on. On the bulk path the keys are not looked up in the
  namespace but in the column families in the order of the handle vector. Here the
  namespace (the second column family) is empty, so both keys are absent from it, and the
  first column family of the database holds key 7: the row of key 7 comes back with the
  stored values of that other column family, not with the default.
\<close>

theorem C4_absent_key_not_default:
  "find_preconditions (ex_table False [[(key7, [4, 5, 6])], []]) ex_keys2 ex_out2 ex_default
   \<and> stored_records (ex_table False [[(key7, [4, 5, 6])], []]) = []
   \<and> snd (Find (ex_table False [[(key7, [4, 5, 6])], []]) ex_keys2 ex_out2 ex_default) =
        (Returned OK, [[4], [5], [6], [9], [9], [9]])"
proof -
  have "snd (Find (ex_table False [[(key7, [4, 5, 6])], []]) ex_keys2 ex_out2 ex_default) =
        (Returned OK, [[4], [5], [6], [9], [9], [9]])"
    by (simp add: find_defs ex_defs)
  then show ?thesis
    by (simp add: find_preconditions_def stored_records_def namespace_present_def NumElements_def
        ex_table_def ex_keys2_def ex_out2_def ex_default_def)
qed

subsection \<open>C5: find on a table without a namespace\<close>

text \<open>
  Claim C5 says that a find on a table whose namespace is absent treats every key as a
  miss, succeeds, and leaves the namespace absent. \<open>Find\<close> asks
  \<open>GetOrCreateColumnHandle\<close> for the handle, and on a table that is not read-only this
  creates the column family: after the find the namespace exists.
\<close>

theorem C5_find_creates_namespace:
  "\<not> readOnly (ex_table False [[]]) \<and> \<not> namespace_present (ex_table False [[]])
   \<and> fst (snd (Find (ex_table False [[]]) ex_keys1 ex_out1 ex_default)) = Returned OK
   \<and> namespace_present (fst (Find (ex_table False [[]]) ex_keys1 ex_out1 ex_default))"
  by (simp add: find_defs ex_defs namespace_present_def)

text \<open>
  Claim C5 as the code has it. A find with acceptable arguments on a table without a
  namespace returns \<open>OK\<close> and fills every row from the tiled default, on a read-only
  table for any number of keys and on a table that is not read-only for a request on the
  point path. The read-only table is left without a namespace; on the other table the
  find has created the empty column family.
\<close>

theorem C5_find_absent_namespace:
  assumes "table_ok t" and "\<not> namespace_present t" and "find_preconditions t keys values dv"
    and "readOnly t \<or> dim0 keys < RDB_BATCH_MODE_MIN_QUERY_SIZE"
  shows "fst (snd (Find t keys values dv)) = Returned OK
    \<and> snd (snd (Find t keys values dv)) =
        concat (map (default_tile (elems dv) (NumElements values div dim0 values)) [0 ..< dim0 keys])
    \<and> (readOnly t \<longrightarrow>
          \<not> namespace_present (fst (Find t keys values dv))
          \<and> colHandles (fst (Find t keys values dv)) = colHandles t)
    \<and> (\<not> readOnly t \<longrightarrow>
          namespace_present (fst (Find t keys values dv))
          \<and> colHandles (fst (Find t keys values dv)) = colHandles t @ [[]])"
proof (cases "readOnly t")
  case True
  from Find_absent_readOnly [OF True assms(2,3)] assms(2) True show ?thesis
    by (simp add: namespace_present_def)
next
  case False
  with assms(4) have small: "dim0 keys < RDB_BATCH_MODE_MIN_QUERY_SIZE" by simp
  from Find_absent_writable_point [OF False assms(1-3) small] absent_index [OF assms(1,2)] False
  show ?thesis by (simp add: namespace_present_def)
qed

theorem C5_find_absent_namespace_witness:
  "table_ok (ex_table True [[]]) \<and> \<not> namespace_present (ex_table True [[]])
   \<and> find_preconditions (ex_table True [[]]) ex_keys2 ex_out2 ex_default
   \<and> snd (Find (ex_table True [[]]) ex_keys2 ex_out2 ex_default) =
        (Returned OK, [[9], [9], [9], [9], [9], [9]])
   \<and> colHandles (fst (Find (ex_table True [[]]) ex_keys2 ex_out2 ex_default)) = [[]]
   \<and> table_ok (ex_table False [[]]) \<and> \<not> namespace_present (ex_table False [[]])
   \<and> find_preconditions (ex_table False [[]]) ex_keys1 ex_out1 ex_default
   \<and> snd (Find (ex_table False [[]]) ex_keys1 ex_out1 ex_default) = (Returned OK, [[9], [9], [9]])
   \<and> colHandles (fst (Find (ex_table False [[]]) ex_keys1 ex_out1 ex_default)) = [[], []]"
  using C5_find_absent_namespace [of "ex_table True [[]]" ex_keys2 ex_out2 ex_default]
    C5_find_absent_namespace [of "ex_table False [[]]" ex_keys1 ex_out1 ex_default]
  by (simp add: ex_defs table_ok_def namespace_present_def find_preconditions_def NumElements_def
      RDB_BATCH_MODE_MIN_QUERY_SIZE_def default_tile_def prod_eq_iff upt_rec [of 0 "2::nat"] upt_rec [of "Suc 0" "2::nat"]
      upt_rec [of 0 "Suc 0"])

subsection \<open>C6: remove on a table without a namespace\<close>

text \<open>
  Claim C6 says that on a table that is not read-only and has no namespace, remove
  returns success and changes no state. \<open>Remove\<close> gets its handle from
  \<open>GetOrCreateColumnHandle\<close>, which creates the column family first: the table is not
  the same afterwards.
\<close>

theorem C6_remove_creates_namespace:
  "\<not> readOnly (ex_table False [[]]) \<and> \<not> namespace_present (ex_table False [[]])
   \<and> snd (Remove (ex_table False [[]]) ex_keys1) = Returned OK
   \<and> fst (Remove (ex_table False [[]]) ex_keys1) \<noteq> ex_table False [[]]
   \<and> namespace_present (fst (Remove (ex_table False [[]]) ex_keys1))"
  by (simp add: Remove_def GetOrCreateColumnHandle_def RDB_BATCH_MODE_MIN_QUERY_SIZE_def
      db_Delete_def ex_defs namespace_present_def Let_def)

text \<open>
  Claim C6 as the code has it. On a table that is not read-only and has no namespace,
  remove with keys of the table's type returns \<open>OK\<close> for any number of keys, deletes
  no record and leaves the other column families as they were; its one effect is the new,
  empty column family of the table.
\<close>

theorem C6_remove_absent_namespace:
  assumes "\<not> readOnly t" and "table_ok t" and "\<not> namespace_present t"
    and "dtype keys = key_dtype t"
  shows "Remove t keys = (t\<lparr>colHandles := colHandles t @ [[]]\<rparr>, Returned OK)
    \<and> namespace_present (fst (Remove t keys))
    \<and> stored_records (fst (Remove t keys)) = []
    \<and> take (length (colHandles t)) (colHandles (fst (Remove t keys))) = colHandles t"
  using Remove_absent_writable [OF assms] absent_index [OF assms(2,3)]
  by (simp add: namespace_present_def stored_records_def)

theorem C6_remove_absent_namespace_witness:
  "\<not> readOnly (ex_table False [[(key7, [1, 2, 3])]]) \<and> table_ok (ex_table False [[(key7, [1, 2, 3])]])
   \<and> \<not> namespace_present (ex_table False [[(key7, [1, 2, 3])]])
   \<and> dtype ex_keys2 = key_dtype (ex_table False [[(key7, [1, 2, 3])]])
   \<and> Remove (ex_table False [[(key7, [1, 2, 3])]]) ex_keys2 =
        (ex_table False [[(key7, [1, 2, 3])], []], Returned OK)"
  using C6_remove_absent_namespace [of "ex_table False [[(key7, [1, 2, 3])]]" ex_keys2]
  by (simp add: ex_defs table_ok_def namespace_present_def)

subsection \<open>C7: the layout of the exported file\<close>

text \<open>
  Claim C7. For every export call the output file begins with the 8-byte header and
  holds the stored records in iterator order, each as a length byte, the key, a 4-byte
  little-endian length and the value; a key longer than 255 bytes or a value longer than
  \<open>2^32 - 1\<close> bytes is a fatal error. This is what the loop writes, but not every call
  reaches the loop. On a read-only table whose namespace is absent
  \<open>GetOrCreateColumnHandle\<close> returns \<open>nullptr\<close>, and \<open>ExportValues\<close> hands it to
  \<open>NewIterator\<close> without the test that \<open>Find\<close> makes: once the header is written the
  behaviour is undefined. The theorem gives the result of every export call on a table
  whose \<open>colIndex\<close> is at most the number of handles: \<open>UNKNOWN\<close> and an untouched file
  system when the dump file cannot be opened; the undefined call; and on every other
  table (the namespace is created when it is absent) the header followed by what
  \<open>export_result\<close> says of the records in iterator order: all frames and \<open>OK\<close>, or the
  exception after the frames of the records before the first one that does not fit, with
  the key length and key of that one when only its value is too large. The iterator order
  is the one of \<open>cf_iterate_props\<close>: sorted by key bytes, the same records.
\<close>

theorem C7_export_every_call:
  assumes "table_ok t"
  shows "ExportValues t fs =
     (if \<not> dump_writable fs then (t, Returned UNKNOWN, fs)
      else if readOnly t \<and> \<not> namespace_present t then
        (t, Undefined, fs\<lparr>dump_file := Some export_header\<rparr>)
      else
        (if namespace_present t then t else t\<lparr>colHandles := colHandles t @ [[]]\<rparr>,
         fst (export_result (cf_iterate (stored_records t))),
         fs\<lparr>dump_file :=
              Some (export_header @ snd (export_result (cf_iterate (stored_records t))))\<rparr>))"
proof (cases "dump_writable fs")
  case False
  then show ?thesis by (simp add: ExportValues_unwritable)
next
  case w: True
  show ?thesis
  proof (cases "readOnly t \<and> \<not> namespace_present t")
    case True
    with w show ?thesis by (simp add: ExportValues_null_handle)
  next
    case False
    then have h: "namespace_present t \<or> \<not> readOnly t" by auto
    have "ExportValues t fs = (fst (ExportValues t fs), snd (ExportValues t fs))" by simp
    also have "\<dots> =
        (if namespace_present t then t else t\<lparr>colHandles := colHandles t @ [[]]\<rparr>,
         fst (export_result (cf_iterate (stored_records t))),
         fs\<lparr>dump_file :=
              Some (export_header @ snd (export_result (cf_iterate (stored_records t))))\<rparr>)"
      by (simp only: ExportValues_fst [OF h assms w] ExportValues_exact [OF w assms h])
    finally show ?thesis using w False by (cases "readOnly t") auto
  qed
qed

text \<open>
  Four exports: the read-only table without a namespace; a namespace of two records
  stored out of key order, written in key order; a namespace whose second key has 256
  bytes, where the file ends after the first record; and a namespace whose one value has
  \<open>2^32\<close> bytes, where the file ends after its key.
\<close>

theorem C7_export_every_call_witness:
  "table_ok (ex_table True [[]])
   \<and> readOnly (ex_table True [[]]) \<and> \<not> namespace_present (ex_table True [[]])
   \<and> ExportValues (ex_table True [[]]) (ex_fs None) =
       (ex_table True [[]], Undefined, ex_fs (Some [0x54, 0x46, 0x4B, 0x56, 1, 0, 0, 0]))
   \<and> table_ok (ex_table False [[], [(key9, [4, 5, 6]), (key7, [1, 2, 3])]])
   \<and> snd (ExportValues (ex_table False [[], [(key9, [4, 5, 6]), (key7, [1, 2, 3])]]) (ex_fs None)) =
       (Returned OK,
        ex_fs (Some [0x54, 0x46, 0x4B, 0x56, 1, 0, 0, 0,
                     8, 7, 0, 0, 0, 0, 0, 0, 0, 3, 0, 0, 0, 1, 2, 3,
                     8, 9, 0, 0, 0, 0, 0, 0, 0, 3, 0, 0, 0, 4, 5, 6]))
   \<and> snd (ExportValues (ex_table False [[], [(9 # replicate 255 0, []), (key7, [1, 2, 3])]])
            (ex_fs None)) =
       (Thrown ''A key in the database is too long. Has the database been tampered with?'',
        ex_fs (Some [0x54, 0x46, 0x4B, 0x56, 1, 0, 0, 0,
                     8, 7, 0, 0, 0, 0, 0, 0, 0, 3, 0, 0, 0, 1, 2, 3]))
   \<and> snd (ExportValues (ex_table False [[], [(key7, replicate (2 ^ 32) 0)]]) (ex_fs None)) =
       (Thrown ''A value in the database is too large. Has the database been tampered with?'',
        ex_fs (Some [0x54, 0x46, 0x4B, 0x56, 1, 0, 0, 0, 8, 7, 0, 0, 0, 0, 0, 0, 0]))"
  using C7_export_every_call [of "ex_table True [[]]" "ex_fs None"]
    C7_export_every_call [of "ex_table False [[], [(key9, [4, 5, 6]), (key7, [1, 2, 3])]]" "ex_fs None"]
    C7_export_every_call [of "ex_table False [[], [(9 # replicate 255 0, []), (key7, [1, 2, 3])]]"
      "ex_fs None"]
    C7_export_every_call [of "ex_table False [[], [(key7, replicate (2 ^ 32) 0)]]" "ex_fs None"]
  by (simp add: ex_defs table_ok_def namespace_present_def stored_records_def record_fits_def
      cf_iterate_def frame_def bytes_of_u32_def export_result_def export_header_bytes)

subsection \<open>C8: write batches during import\<close>

text \<open>
  Claim C8. Import collects records in a write batch, writes it each time it holds 128
  records, and writes the remaining records in a final batch at the end of the file. The
  first two parts are what the loop does. The final batch is never written: the loop has
  no way out but the failed read of the next key length, so no import returns \<open>OK\<close>, and
  the records read since the last full batch are lost. What an import of a well-formed
  file of \<open>n\<close> records does on a table that is not read-only: it clears the namespace,
  creates it again, writes the first \<open>n div 128 * 128\<close> records and returns
  \<open>OUT_OF_RANGE\<close>. On an existing default column family (\<open>colIndex\<close> 0) the clear throws
  instead, and nothing is read or written.
\<close>

theorem C8_import_batches:
  assumes "\<not> readOnly t"
    and "dump_file fs = Some (export_header @ concat (map frame recs))"
    and "list_all record_fits recs"
  shows "ImportValues t fs =
     (if namespace_present t \<and> colIndex t = 0
      then (t\<lparr>colHandleCache := []\<rparr>, Thrown ''s.getState()'')
      else
        (db_Write ((fst (Clear t))\<lparr>colHandles := colHandles (fst (Clear t)) @ [[]]\<rparr>)
           (puts (colIndex (fst (Clear t)))
              (take (length recs div RDB_BATCH_MODE_MAX_QUERY_SIZE * RDB_BATCH_MODE_MAX_QUERY_SIZE)
                 recs)),
         Returned OUT_OF_RANGE))"
proof (cases "namespace_present t \<and> colIndex t = 0")
  case True
  with ImportValues_default_family [OF assms(1), of fs] show ?thesis by simp
next
  case False
  from ImportValues_well_formed [OF assms(1) False assms(2,3)] False show ?thesis
    by (simp add: puts_take)
qed

text \<open>
  A file of two records, none of which reaches the store, and a file of 128 records (the
  same record 128 times), whose one full batch is written; and the file of two records
  on a table whose column family is the default one.
\<close>

theorem C8_import_batches_witness:
  "\<not> readOnly (ex_table False [[]])
   \<and> list_all record_fits [(key7, [1, 2, 3]), (key9, [4, 5, 6])]
   \<and> ImportValues (ex_table False [[]])
        (ex_fs (Some (export_header @ concat (map frame [(key7, [1, 2, 3]), (key9, [4, 5, 6])])))) =
        (ex_table False [[], []], Returned OUT_OF_RANGE)
   \<and> list_all record_fits (replicate 128 (key7, [1, 2, 3]))
   \<and> ImportValues (ex_table False [[]])
        (ex_fs (Some (export_header @ concat (map frame (replicate 128 (key7, [1, 2, 3])))))) =
        (ex_table False [[], [(key7, [1, 2, 3])]], Returned OUT_OF_RANGE)
   \<and> ImportValues (ex_table_default [[(key8, [0, 0, 0])]])
        (ex_fs (Some (export_header @ concat (map frame [(key7, [1, 2, 3]), (key9, [4, 5, 6])])))) =
        (ex_table_default [[(key8, [0, 0, 0])]], Thrown ''s.getState()'')"
  using C8_import_batches [of "ex_table False [[]]"
      "ex_fs (Some (export_header @ concat (map frame [(key7, [1, 2, 3]), (key9, [4, 5, 6])])))"
      "[(key7, [1, 2, 3]), (key9, [4, 5, 6])]"]
    C8_import_batches [of "ex_table_default [[(key8, [0, 0, 0])]]"
      "ex_fs (Some (export_header @ concat (map frame [(key7, [1, 2, 3]), (key9, [4, 5, 6])])))"
      "[(key7, [1, 2, 3]), (key9, [4, 5, 6])]"]
    C8_import_batches [of "ex_table False [[]]"
      "ex_fs (Some (export_header @ concat (map frame (replicate 128 (key7, [1, 2, 3])))))"
      "replicate 128 (key7, [1, 2, 3])"]
  by (simp add: ex_table_def ex_table_default_def ex_fs_def key7_def key9_def record_fits_def
      list_all_iff Clear_def namespace_present_def db_DropColumnFamily_def
      RDB_BATCH_MODE_MAX_QUERY_SIZE_def puts_def db_Write_replicate_put db_Put_def)

subsection \<open>C9: import of a file with a wrong header\<close>

text \<open>
  Claim C9 says that every import of a file whose magic or version is wrong returns the
  unsupported-format status (code \<open>INTERNAL\<close>), writes no record and leaves the namespace
  cleared. Import starts with \<open>Clear\<close> and returns its status when that is not \<open>OK\<close>:
  on a read-only table whose namespace exists the import returns \<open>PERMISSION_DENIED\<close>
  before the file is opened, and the namespace keeps its records.
\<close>

theorem C9_bad_magic_read_only:
  "readOnly (ex_table True [[], [(key7, [1, 2, 3])]])
   \<and> \<not> header_accepted [0, 0, 0, 0, 1, 0, 0, 0]
   \<and> snd (ImportValues (ex_table True [[], [(key7, [1, 2, 3])]]) (ex_fs (Some [0, 0, 0, 0, 1, 0, 0, 0]))) =
        Returned PERMISSION_DENIED
   \<and> stored_records (fst (ImportValues (ex_table True [[], [(key7, [1, 2, 3])]])
          (ex_fs (Some [0, 0, 0, 0, 1, 0, 0, 0])))) = [(key7, [1, 2, 3])]"
  by (simp add: ImportValues_def Clear_def ex_defs header_accepted_def u32_of_bytes_def
      RDB_EXPORT_FILE_MAGIC_def stored_records_def namespace_present_def Let_def)

text \<open>
  Claim C9 as the code has it, for a dump file of at least eight bytes whose magic or
  version is not the expected one. On a read-only table whose namespace exists the import
  returns \<open>PERMISSION_DENIED\<close> and only empties the handle cache. On a read-write table
  whose namespace exists and is the default column family (\<open>colIndex\<close> 0) the clear cannot
  drop it: the import ends in the exception of \<open>RDB_OK\<close>, returns no status and only
  empties the handle cache. On every other table (the namespace is absent, or the table
  is read-write and its column family is not the default one) the clear succeeds, the
  import returns \<open>INTERNAL\<close>, the table is as the clear left it, and its namespace is
  absent.
\<close>

theorem C9_import_bad_header:
  assumes "dump_file fs = Some contents" and "8 \<le> length contents"
    and "\<not> header_accepted contents"
  shows "(readOnly t \<and> namespace_present t \<longrightarrow>
            ImportValues t fs = (t\<lparr>colHandleCache := []\<rparr>, Returned PERMISSION_DENIED))
    \<and> (\<not> readOnly t \<and> namespace_present t \<and> colIndex t = 0 \<longrightarrow>
            ImportValues t fs = (t\<lparr>colHandleCache := []\<rparr>, Thrown ''s.getState()''))
    \<and> (\<not> namespace_present t \<or> (\<not> readOnly t \<and> 0 < colIndex t) \<longrightarrow>
            ImportValues t fs = (fst (Clear t), Returned INTERNAL)
            \<and> snd (Clear t) = Returned OK
            \<and> \<not> namespace_present (fst (ImportValues t fs)))"
proof (intro conjI impI)
  show "ImportValues t fs = (t\<lparr>colHandleCache := []\<rparr>, Returned PERMISSION_DENIED)"
    if "readOnly t \<and> namespace_present t"
    using that by (simp add: ImportValues_readOnly_present)
  show "ImportValues t fs = (t\<lparr>colHandleCache := []\<rparr>, Thrown ''s.getState()'')"
    if "\<not> readOnly t \<and> namespace_present t \<and> colIndex t = 0"
    using that by (simp add: ImportValues_default_family)
  assume h: "\<not> namespace_present t \<or> (\<not> readOnly t \<and> 0 < colIndex t)"
  then show c: "snd (Clear t) = Returned OK"
    by (auto simp: Clear_absent Clear_writable)
  from ImportValues_bad_header [OF c assms]
  show i: "ImportValues t fs = (fst (Clear t), Returned INTERNAL)" .
  from Clear_OK_absent [OF c] show "\<not> namespace_present (fst (ImportValues t fs))"
    by (simp add: i)
qed

theorem C9_import_bad_header_witness:
  "dump_file (ex_fs (Some [0, 0, 0, 0, 1, 0, 0, 0, 8, 7])) = Some [0, 0, 0, 0, 1, 0, 0, 0, 8, 7]
   \<and> \<not> header_accepted [0, 0, 0, 0, 1, 0, 0, 0, 8, 7]
   \<and> ImportValues (ex_table False [[], [(key7, [1, 2, 3])]]) (ex_fs (Some [0, 0, 0, 0, 1, 0, 0, 0, 8, 7])) =
        (ex_table False [[]], Returned INTERNAL)
   \<and> \<not> header_accepted [0x54, 0x46, 0x4B, 0x56, 2, 0, 0, 0]
   \<and> ImportValues (ex_table True [[]]) (ex_fs (Some [0x54, 0x46, 0x4B, 0x56, 2, 0, 0, 0])) =
        (ex_table True [[]], Returned INTERNAL)
   \<and> ImportValues (ex_table True [[], [(key7, [1, 2, 3])]]) (ex_fs (Some [0, 0, 0, 0, 1, 0, 0, 0, 8, 7])) =
        (ex_table True [[], [(key7, [1, 2, 3])]], Returned PERMISSION_DENIED)
   \<and> ImportValues (ex_table_default [[(key7, [1, 2, 3])]]) (ex_fs (Some [0, 0, 0, 0, 1, 0, 0, 0, 8, 7])) =
        (ex_table_default [[(key7, [1, 2, 3])]], Thrown ''s.getState()'')"
  using C9_import_bad_header [of "ex_fs (Some [0, 0, 0, 0, 1, 0, 0, 0, 8, 7])"
      "[0, 0, 0, 0, 1, 0, 0, 0, 8, 7]" "ex_table_default [[(key7, [1, 2, 3])]]"]
    C9_import_bad_header [of "ex_fs (Some [0, 0, 0, 0, 1, 0, 0, 0, 8, 7])"
      "[0, 0, 0, 0, 1, 0, 0, 0, 8, 7]" "ex_table False [[], [(key7, [1, 2, 3])]]"]
    C9_import_bad_header [of "ex_fs (Some [0x54, 0x46, 0x4B, 0x56, 2, 0, 0, 0])"
      "[0x54, 0x46, 0x4B, 0x56, 2, 0, 0, 0]" "ex_table True [[]]"]
    C9_import_bad_header [of "ex_fs (Some [0, 0, 0, 0, 1, 0, 0, 0, 8, 7])"
      "[0, 0, 0, 0, 1, 0, 0, 0, 8, 7]" "ex_table True [[], [(key7, [1, 2, 3])]]"]
  by (simp add: ex_defs header_accepted_def u32_of_bytes_def RDB_EXPORT_FILE_MAGIC_def
      RDB_EXPORT_FILE_VERSION_def namespace_present_def Clear_def Let_def db_DropColumnFamily_def)

subsection \<open>C10: the default copy stays inside the default tensor\<close>

text \<open>
  Claim C10. Once the number of default elements has passed the divisibility check,
  every copy from the default tensor reads inside it. For a default tensor that is not
  empty this is \<open>tile_in_bounds\<close>. An empty default tensor passes the check as well
  (0 is divisible by every row width), and then the first miss computes
  \<open>vOffset % dSize\<close> with \<open>dSize = 0\<close>: the behaviour is undefined, and there is no
  element the copy could read. Here a find of one absent key with an empty default tensor.
\<close>

theorem C10_empty_default_undefined:
  "dtype ex_default_empty = value_dtype (ex_table False [[], []])
   \<and> NumElements ex_default_empty mod (NumElements ex_out1 div dim0 ex_out1) = 0
   \<and> stored_records (ex_table False [[], []]) = []
   \<and> snd (Find (ex_table False [[], []]) ex_keys1 ex_out1 ex_default_empty) =
        (Undefined, elems ex_out1)"
proof -
  have "snd (Find (ex_table False [[], []]) ex_keys1 ex_out1 ex_default_empty) =
        (Undefined, elems ex_out1)"
    by (simp add: find_defs ex_defs)
  then show ?thesis
    by (simp add: stored_records_def namespace_present_def NumElements_def
        ex_table_def ex_out1_def ex_default_empty_def)
qed

end
